theory Spec2Isabelle
  imports Main "HOL-Library.Signed_Division"
begin

section \<open>Errors\<close>

text \<open>
  The Go code reports failures as \<^verbatim>\<open>error\<close> values. Three kinds occur in the files
  embedded here: a gRPC status (\<^verbatim>\<open>status.Errorf(codes.X, ...)\<close>), a plain error
  (\<^verbatim>\<open>errors.New\<close>, \<^verbatim>\<open>fmt.Errorf\<close>), which carries no status code, and a run-time
  panic (a nil pointer dereference), which is no error value in Go but is an outcome of
  the call all the same.
\<close>

datatype code =
  NotFound | InvalidArgument | Aborted | DataLoss | AlreadyExists | FailedPrecondition | Unavailable

datatype error = Status code string | Plain string | Panic string

section \<open>Device ownership (device\_ownership.go)\<close>

subsection \<open>The KV client\<close>

text \<open>
  \<^verbatim>\<open>kvstore.Client\<close> is an interface and \<^verbatim>\<open>kvstore.ToString\<close> a helper of the same
  package; neither is part of the embedded files. They are parameters of the model: a
  client is any pair of functions over a store state \<open>'s\<close>, with values of any type
  \<open>'v\<close> (Go's \<^verbatim>\<open>interface{}\<close>), and \<open>ToString\<close> gives the string and the error that
  the helper returns for a value.
\<close>

record ('s, 'v) kvClient =
  Reserve :: "'s \<Rightarrow> string \<Rightarrow> string \<Rightarrow> int \<Rightarrow> ('v option \<times> error option) \<times> 's"
  RenewReservation :: "'s \<Rightarrow> string \<Rightarrow> error option \<times> 's"
  ToString :: "'v \<Rightarrow> string \<times> error option"

text \<open>The calls a replica makes on the client, in order.\<close>

datatype kvCall = ReserveCall string string int | RenewCall string

subsection \<open>The arbiter's state\<close>

text \<open>
  \<^verbatim>\<open>type ownership struct { id string; owned bool; chnl chan int }\<close>.
  A channel is represented by its identity, a number given out by \<open>nextChan\<close>.
\<close>

record ownership =
  id' :: string
  owned :: bool
  chnl :: nat

text \<open>
  \<^verbatim>\<open>type DeviceOwnership struct\<close>, with the world it acts on: the store behind the client
  (\<open>kvState\<close>), the calls made on the client so far (\<open>kvCalls\<close>), and the monitor
  goroutines started so far (\<open>goroutines\<close>: device id and stop channel).
\<close>

record ('s, 'v) DeviceOwnership =
  instanceId :: string
  kvClient :: "('s, 'v) kvClient"
  reservationTimeout :: int
  ownershipPrefix :: string
  deviceMap :: "string \<rightharpoonup> ownership"
  kvState :: 's
  kvCalls :: "kvCall list"
  goroutines :: "(string \<times> nat) list"
  nextChan :: nat

definition NewDeviceOwnership ::
  "string \<Rightarrow> ('s, 'v) kvClient \<Rightarrow> 's \<Rightarrow> string \<Rightarrow> int \<Rightarrow> ('s, 'v) DeviceOwnership" where
  "NewDeviceOwnership i client store prefix timeout =
     \<lparr>instanceId = i, kvClient = client, reservationTimeout = timeout,
      ownershipPrefix = prefix, deviceMap = Map.empty, kvState = store, kvCalls = [],
      goroutines = [], nextChan = 0\<rparr>"

text \<open>\<^verbatim>\<open>fmt.Sprintf("%s_%s", da.ownershipPrefix, id)\<close>\<close>

definition kvKey :: "('s, 'v) DeviceOwnership \<Rightarrow> string \<Rightarrow> string" where
  "kvKey da i = ownershipPrefix da @ ''_'' @ i"

subsection \<open>Operations\<close>

text \<open>
  \<^verbatim>\<open>tryToReserveKey\<close>: the error of \<^verbatim>\<open>Reserve\<close> is not looked at; a nil value gives
  false; otherwise the value is decoded, a decoding error is logged only, and the string
  that came back is compared with the instance id.
\<close>

definition tryToReserveKey ::
  "('s, 'v) DeviceOwnership \<Rightarrow> string \<Rightarrow> bool \<times> ('s, 'v) DeviceOwnership" where
  "tryToReserveKey da i =
     (let k = kvKey da i;
          ((val, err), s') =
             Reserve (kvClient da) (kvState da) k (instanceId da) (reservationTimeout da);
          da' = da\<lparr>kvState := s',
                   kvCalls := kvCalls da @ [ReserveCall k (instanceId da) (reservationTimeout da)]\<rparr>
      in case val of
           Some v \<Rightarrow>
             (let (currOwner, err') = ToString (kvClient da) v
              in (currOwner = instanceId da, da'))
         | None \<Rightarrow> (False, da'))"

text \<open>\<^verbatim>\<open>setOwnership\<close>: writes the flag of an existing entry, not-found otherwise.\<close>

definition setOwnership ::
  "('s, 'v) DeviceOwnership \<Rightarrow> string \<Rightarrow> bool \<Rightarrow> error option \<times> ('s, 'v) DeviceOwnership" where
  "setOwnership da i owner =
     (case deviceMap da i of
        Some val \<Rightarrow> (None, da\<lparr>deviceMap := (deviceMap da)(i \<mapsto> val\<lparr>owned := owner\<rparr>)\<rparr>)
      | None \<Rightarrow> (Some (Status NotFound (''id-inexistent-'' @ i)), da))"

text \<open>
  \<^verbatim>\<open>getOwnership\<close> (\<^verbatim>\<open>OwnedByMe\<close> is a direct call of it): an existing entry answers
  from its flag; otherwise one reservation is tried, the entry is created with a fresh
  channel, and the monitor goroutine is started.
\<close>

definition getOwnership ::
  "('s, 'v) DeviceOwnership \<Rightarrow> string \<Rightarrow> bool \<times> ('s, 'v) DeviceOwnership" where
  "getOwnership da i =
     (case deviceMap da i of
        Some val \<Rightarrow> (owned val, da)
      | None \<Rightarrow>
          (let (reservedByMe, da1) = tryToReserveKey da i;
               myChnl = nextChan da1
           in (reservedByMe,
               da1\<lparr>nextChan := Suc myChnl,
                   deviceMap := (deviceMap da1)(i \<mapsto> \<lparr>id' = i, owned = reservedByMe, chnl = myChnl\<rparr>),
                   goroutines := goroutines da1 @ [(i, myChnl)]\<rparr>)))"

definition OwnedByMe ::
  "('s, 'v) DeviceOwnership \<Rightarrow> string \<Rightarrow> bool \<times> ('s, 'v) DeviceOwnership" where
  "OwnedByMe da i = getOwnership da i"

text \<open>
  \<^verbatim>\<open>AbandonDevice\<close>: closes the entry's channel (the channels closed so far are not
  part of the state kept here) and deletes the entry; the KV key is not released.
\<close>

definition AbandonDevice ::
  "('s, 'v) DeviceOwnership \<Rightarrow> string \<Rightarrow> error option \<times> ('s, 'v) DeviceOwnership" where
  "AbandonDevice da i =
     (case deviceMap da i of
        Some val \<Rightarrow> (None, da\<lparr>deviceMap := (deviceMap da)(i := None)\<rparr>)
      | None \<Rightarrow> (Some (Status NotFound (''id-inexistent-'' @ i)), da))"

subsection \<open>The monitor\<close>

text \<open>
  One pass through the body of the loop of \<^verbatim>\<open>startOwnershipMonitoring\<close>, up to the
  \<^verbatim>\<open>select\<close>: an owned device has its reservation renewed (an error is logged and
  nothing else); a device that is not owned, or has no entry, is reserved again and the
  outcome written with \<^verbatim>\<open>setOwnership\<close> (whose error is logged only). The pass is
  one step here: what other goroutines do between its reading of the entry and its
  writing is not part of the model.
\<close>

definition renewBranch :: "('s, 'v) DeviceOwnership \<Rightarrow> string \<Rightarrow> ('s, 'v) DeviceOwnership" where
  "renewBranch da i =
     (let k = kvKey da i;
          (err, s') = RenewReservation (kvClient da) (kvState da) k
      in da\<lparr>kvState := s', kvCalls := kvCalls da @ [RenewCall k]\<rparr>)"

definition retryBranch :: "('s, 'v) DeviceOwnership \<Rightarrow> string \<Rightarrow> ('s, 'v) DeviceOwnership" where
  "retryBranch da i =
     (let (r, da1) = tryToReserveKey da i;
          (err, da2) = setOwnership da1 i r
      in da2)"

definition monitorTick :: "('s, 'v) DeviceOwnership \<Rightarrow> string \<Rightarrow> ('s, 'v) DeviceOwnership" where
  "monitorTick da i =
     (case deviceMap da i of
        Some val \<Rightarrow> if owned val then renewBranch da i else retryBranch da i
      | None \<Rightarrow> retryBranch da i)"

text \<open>
  The loop itself, run against the sequence of cases its \<^verbatim>\<open>select\<close> takes: the timer
  starts the next pass, the exit channel and the device's channel end the loop. When the
  sequence is used up the goroutine is left waiting in the \<^verbatim>\<open>select\<close>.
\<close>

datatype selectCase = ExitChannel | TimeAfter | Chnl

fun startOwnershipMonitoring ::
  "('s, 'v) DeviceOwnership \<Rightarrow> string \<Rightarrow> selectCase list \<Rightarrow> ('s, 'v) DeviceOwnership" where
  "startOwnershipMonitoring da i [] = monitorTick da i"
| "startOwnershipMonitoring da i (TimeAfter # cs) = startOwnershipMonitoring (monitorTick da i) i cs"
| "startOwnershipMonitoring da i (ExitChannel # cs) = monitorTick da i"
| "startOwnershipMonitoring da i (Chnl # cs) = monitorTick da i"

subsection \<open>A store for concrete runs\<close>

text \<open>
  Modelled from the spec: the KV store behind \<^verbatim>\<open>kvstore.Client\<close> and the helper
  \<^verbatim>\<open>kvstore.ToString\<close> are missing from the embedded files. \<open>reserve(key, value, ttl)\<close>
  returns the current value of \<open>key\<close>, creating it with \<open>value\<close> if absent; a holder
  is the instance id stored under the key. Renewal by a client that is not the holder
  fails. A value is a string, a byte string, or of another type; only the first two
  decode, and a failed decoding returns Go's empty string with its error.
\<close>

datatype kvValue = StringValue string | BytesValue string | OtherValue

fun goToString :: "kvValue \<Rightarrow> string \<times> error option" where
  "goToString (StringValue s) = (s, None)"
| "goToString (BytesValue s) = (s, None)"
| "goToString OtherValue = ('''', Some (Plain ''unexpected-type''))"

definition leaseStore :: "string \<Rightarrow> (string \<rightharpoonup> kvValue, kvValue) kvClient" where
  "leaseStore me =
     \<lparr>Reserve = (\<lambda>s k v ttl.
        (case s k of
           None \<Rightarrow> ((Some (StringValue v), None), s(k \<mapsto> StringValue v))
         | Some cur \<Rightarrow> ((Some cur, None), s))),
      RenewReservation = (\<lambda>s k.
        (if s k = Some (StringValue me) then None else Some (Plain ''not-reserved''), s)),
      ToString = goToString\<rparr>"

text \<open>A client whose store cannot be reached: no value, an error.\<close>

definition deadStore :: "(unit, kvValue) kvClient" where
  "deadStore =
     \<lparr>Reserve = (\<lambda>s k v ttl. ((None, Some (Plain ''unavailable'')), s)),
      RenewReservation = (\<lambda>s k. (Some (Plain ''unavailable''), s)),
      ToString = goToString\<rparr>"

section \<open>Adapter registry (adapter manager)\<close>

subsection \<open>Records\<close>

text \<open>
  The protobuf messages, with the fields the registry reads. A \<^verbatim>\<open>Timestamp\<close> holds
  \<^verbatim>\<open>int64\<close> seconds and \<^verbatim>\<open>int32\<close> nanoseconds; \<open>LastCommunication\<close> is a pointer, nil
  when it was never set.
\<close>

record Timestamp =
  Seconds :: int
  Nanos :: int

record Adapter =
  aId :: string
  aVendor :: string
  aVersion :: string
  aLastCommunication :: "Timestamp option"

record DeviceType =
  dtId :: string
  dtAdapter :: string
  dtAcceptsBulkFlowUpdate :: bool
  dtAcceptsAddRemoveFlowUpdates :: bool

definition SentinelAdapterID :: string where
  "SentinelAdapterID = ''adapter_sentinel''"

definition SentinelDevicetypeID :: string where
  "SentinelDevicetypeID = ''device_type_sentinel''"

text \<open>
  \<^verbatim>\<open>&voltha.Adapter{Id: x}\<close> and \<^verbatim>\<open>&voltha.DeviceType{Id: x, Adapter: y}\<close>: every other field
  has Go's zero value.
\<close>

definition adapterWithId :: "string \<Rightarrow> Adapter" where
  "adapterWithId x = \<lparr>aId = x, aVendor = [], aVersion = [], aLastCommunication = None\<rparr>"

definition deviceTypeWith :: "string \<Rightarrow> string \<Rightarrow> DeviceType" where
  "deviceTypeWith x y =
     \<lparr>dtId = x, dtAdapter = y, dtAcceptsBulkFlowUpdate = False,
      dtAcceptsAddRemoveFlowUpdates = False\<rparr>"

text \<open>
  \<^verbatim>\<open>type AdapterAgent struct\<close>. Every agent is built by \<^verbatim>\<open>newAdapterAgent\<close> from an
  adapter that is not nil, so the adapter is a value here.
\<close>

record AdapterAgent =
  adapter :: Adapter
  deviceTypes :: "string \<rightharpoonup> DeviceType"

definition newAdapterAgent :: "Adapter \<Rightarrow> DeviceType list option \<Rightarrow> AdapterAgent" where
  "newAdapterAgent a dts =
     \<lparr>adapter = a,
      deviceTypes =
        (case dts of
           None \<Rightarrow> Map.empty
         | Some items \<Rightarrow> fold (\<lambda>dType m. m(dtId dType \<mapsto> dType)) items Map.empty)\<rparr>"

definition getDeviceType_aa :: "AdapterAgent \<Rightarrow> string \<Rightarrow> DeviceType option" where
  "getDeviceType_aa aa deviceType = deviceTypes aa deviceType"

definition getAdapter_aa :: "AdapterAgent \<Rightarrow> Adapter" where
  "getAdapter_aa aa = adapter aa"

definition updateDeviceType :: "AdapterAgent \<Rightarrow> DeviceType \<Rightarrow> AdapterAgent" where
  "updateDeviceType aa deviceType =
     aa\<lparr>deviceTypes := (deviceTypes aa)(dtId deviceType \<mapsto> deviceType)\<rparr>"

subsection \<open>Time\<close>

text \<open>
  A \<^verbatim>\<open>time.Time\<close> is an instant, counted here in nanoseconds since the Unix epoch.
  \<^verbatim>\<open>time.Unix(sec, nsec)\<close> is the instant \<open>sec\<close> seconds and \<open>nsec\<close> nanoseconds
  after the epoch, for any \<open>nsec\<close>. The functions of \<^verbatim>\<open>ptypes\<close> (the protobuf
  library) follow that library: a timestamp is valid when it is not nil, its seconds lie
  between year 1 and year 10000, and its nanoseconds between 0 and \<open>10\<^sup>9\<close>;
  \<^verbatim>\<open>ptypes.Timestamp\<close> returns the instant together with the validation error, and
  \<^verbatim>\<open>ptypes.TimestampProto\<close> returns an error when the timestamp it has built is not valid.
\<close>

type_synonym time = int

definition timeUnix :: "int \<Rightarrow> int \<Rightarrow> time" where
  "timeUnix sec nsec = sec * 1000000000 + nsec"

definition minValidSeconds :: int where
  "minValidSeconds = - 62135596800"

definition maxValidSeconds :: int where
  "maxValidSeconds = 253402300800"

definition validateTimestamp :: "Timestamp option \<Rightarrow> error option" where
  "validateTimestamp ts =
     (case ts of
        None \<Rightarrow> Some (Plain ''timestamp: nil Timestamp'')
      | Some t \<Rightarrow>
          if Seconds t < minValidSeconds then Some (Plain ''timestamp: before 0001-01-01'')
          else if Seconds t \<ge> maxValidSeconds then Some (Plain ''timestamp: after 10000-01-01'')
          else if Nanos t < 0 \<or> Nanos t \<ge> 1000000000
            then Some (Plain ''timestamp: nanos not in range [0, 1e9)'')
          else None)"

definition ptypesTimestamp :: "Timestamp option \<Rightarrow> time \<times> error option" where
  "ptypesTimestamp ts =
     ((case ts of None \<Rightarrow> timeUnix 0 0 | Some t \<Rightarrow> timeUnix (Seconds t) (Nanos t)),
      validateTimestamp ts)"

definition ptypesTimestampProto :: "time \<Rightarrow> error + Timestamp" where
  "ptypesTimestampProto t =
     (let ts = \<lparr>Seconds = t div 1000000000, Nanos = t mod 1000000000\<rparr>
      in case validateTimestamp (Some ts) of Some e \<Rightarrow> Inl e | None \<Rightarrow> Inr ts)"

text \<open>
  \<^verbatim>\<open>updateCommunicationTime\<close>; \<open>now\<close> is what \<^verbatim>\<open>time.Now()\<close> returns in the call.
\<close>

definition updateCommunicationTime :: "AdapterAgent \<Rightarrow> time \<Rightarrow> time \<Rightarrow> AdapterAgent" where
  "updateCommunicationTime aa new now =
     (let (last, err) = ptypesTimestamp (aLastCommunication (adapter aa))
      in if \<not> new > now \<and> (err \<noteq> None \<or> new > last)
         then (case ptypesTimestampProto new of
                 Inl e \<Rightarrow> aa
               | Inr timestamp \<Rightarrow> aa\<lparr>adapter := (adapter aa)\<lparr>aLastCommunication := Some timestamp\<rparr>\<rparr>)
         else aa)"

subsection \<open>The manager\<close>

text \<open>
  Modelled from the spec: the cluster data proxy (\<^verbatim>\<open>model.Proxy\<close>) is missing from the
  embedded files. It is the KV store of the spec, with \<open>list(prefix)\<close>, \<open>get(key)\<close> and
  \<open>put_if_absent(prefix, id, value)\<close> on the adapters and on the device types; when the
  store cannot be reached every operation returns the error.
\<close>

record Proxy =
  kvAdapters :: "(string \<times> Adapter) list"
  kvDeviceTypes :: "(string \<times> DeviceType) list"
  unreachable :: bool

definition unavailable :: error where
  "unavailable = Plain ''unavailable''"

definition proxyListAdapters :: "Proxy \<Rightarrow> error + Adapter list" where
  "proxyListAdapters p = (if unreachable p then Inl unavailable else Inr (map snd (kvAdapters p)))"

definition proxyListDeviceTypes :: "Proxy \<Rightarrow> error + DeviceType list" where
  "proxyListDeviceTypes p =
     (if unreachable p then Inl unavailable else Inr (map snd (kvDeviceTypes p)))"

definition proxyGetAdapter :: "Proxy \<Rightarrow> string \<Rightarrow> error + bool" where
  "proxyGetAdapter p k =
     (if unreachable p then Inl unavailable else Inr (map_of (kvAdapters p) k \<noteq> None))"

definition proxyGetDeviceType :: "Proxy \<Rightarrow> string \<Rightarrow> error + bool" where
  "proxyGetDeviceType p k =
     (if unreachable p then Inl unavailable else Inr (map_of (kvDeviceTypes p) k \<noteq> None))"

definition proxyAddAdapter :: "Proxy \<Rightarrow> string \<Rightarrow> Adapter \<Rightarrow> error + Proxy" where
  "proxyAddAdapter p k a =
     (if unreachable p then Inl unavailable
      else Inr (p\<lparr>kvAdapters := kvAdapters p @ [(k, a)]\<rparr>))"

definition proxyAddDeviceType :: "Proxy \<Rightarrow> string \<Rightarrow> DeviceType \<Rightarrow> error + Proxy" where
  "proxyAddDeviceType p k d =
     (if unreachable p then Inl unavailable
      else Inr (p\<lparr>kvDeviceTypes := kvDeviceTypes p @ [(k, d)]\<rparr>))"

text \<open>
  \<^verbatim>\<open>type AdapterManager struct\<close>. A Go map is an association list here: \<open>map_of\<close> reads
  it, \<open>mapPut\<close> writes it, and the order of the list is the order in which a
  \<^verbatim>\<open>range\<close> loop visits the entries (Go fixes none, so a statement about a listing is
  made for every order).
\<close>

definition mapPut :: "'k \<Rightarrow> 'v \<Rightarrow> ('k \<times> 'v) list \<Rightarrow> ('k \<times> 'v) list" where
  "mapPut k v m = (if map_of m k = None then m @ [(k, v)] else map (\<lambda>(k', v'). if k' = k then (k', v) else (k', v')) m)"

record AdapterManager =
  adapterAgents :: "(string \<times> AdapterAgent) list"
  deviceTypeToAdapterMap :: "(string \<times> string) list"
  clusterDataProxy :: Proxy
  coreInstanceID :: string

definition newAdapterManager :: "Proxy \<Rightarrow> string \<Rightarrow> AdapterManager" where
  "newAdapterManager cdProxy i =
     \<lparr>adapterAgents = [], deviceTypeToAdapterMap = [], clusterDataProxy = cdProxy,
      coreInstanceID = i\<rparr>"

definition addAdapter :: "AdapterManager \<Rightarrow> Adapter \<Rightarrow> bool \<Rightarrow> error option \<times> AdapterManager" where
  "addAdapter aMgr a saveToDb =
     (if map_of (adapterAgents aMgr) (aId a) = None then
        (let saved =
               (if saveToDb then
                  (case proxyGetAdapter (clusterDataProxy aMgr) (aId a) of
                     Inl e \<Rightarrow> Inl e
                   | Inr have \<Rightarrow>
                       if \<not> have then proxyAddAdapter (clusterDataProxy aMgr) (aId a) a
                       else Inr (clusterDataProxy aMgr))
                else Inr (clusterDataProxy aMgr))
         in case saved of
              Inl e \<Rightarrow> (Some e, aMgr)
            | Inr p \<Rightarrow>
                (None, aMgr\<lparr>clusterDataProxy := p,
                            adapterAgents :=
                              mapPut (aId a) (newAdapterAgent a None) (adapterAgents aMgr)\<rparr>))
      else (None, aMgr))"

text \<open>The first loop of \<^verbatim>\<open>addDeviceTypes\<close>: save each device type that the store lacks.\<close>

fun saveDeviceTypes :: "Proxy \<Rightarrow> DeviceType list \<Rightarrow> error + Proxy" where
  "saveDeviceTypes p [] = Inr p"
| "saveDeviceTypes p (deviceType # rest) =
     (case proxyGetDeviceType p (dtId deviceType) of
        Inl e \<Rightarrow> Inl e
      | Inr have \<Rightarrow>
          if \<not> have then
            (case proxyAddDeviceType p (dtId deviceType) deviceType of
               Inl e \<Rightarrow> Inl e
             | Inr p' \<Rightarrow> saveDeviceTypes p' rest)
          else saveDeviceTypes p rest)"

text \<open>
  The second loop: \<open>items\<close> is the whole list, which a new agent receives; \<open>todo\<close> is
  what the loop has still to visit.
\<close>

fun storeDeviceTypes :: "DeviceType list \<Rightarrow> AdapterManager \<Rightarrow> DeviceType list \<Rightarrow> AdapterManager" where
  "storeDeviceTypes items aMgr [] = aMgr"
| "storeDeviceTypes items aMgr (clonedDType # todo) =
     (let agents' =
            (case map_of (adapterAgents aMgr) (dtAdapter clonedDType) of
               Some adapterAgent \<Rightarrow>
                 mapPut (dtAdapter clonedDType) (updateDeviceType adapterAgent clonedDType)
                   (adapterAgents aMgr)
             | None \<Rightarrow>
                 mapPut (dtAdapter clonedDType)
                   (newAdapterAgent (adapterWithId (dtAdapter clonedDType)) (Some items))
                   (adapterAgents aMgr))
      in storeDeviceTypes items
           (aMgr\<lparr>adapterAgents := agents',
                 deviceTypeToAdapterMap :=
                   mapPut (dtId clonedDType) (dtAdapter clonedDType) (deviceTypeToAdapterMap aMgr)\<rparr>)
           todo)"

definition addDeviceTypes ::
  "AdapterManager \<Rightarrow> DeviceType list option \<Rightarrow> bool \<Rightarrow> error option \<times> AdapterManager" where
  "addDeviceTypes aMgr dts saveToDb =
     (case dts of
        None \<Rightarrow> (Some (Plain ''no-device-type''), aMgr)
      | Some items \<Rightarrow>
          (case (if saveToDb then saveDeviceTypes (clusterDataProxy aMgr) items
                 else Inr (clusterDataProxy aMgr)) of
             Inl e \<Rightarrow> (Some e, aMgr)
           | Inr p \<Rightarrow> (None, storeDeviceTypes items (aMgr\<lparr>clusterDataProxy := p\<rparr>) items)))"

text \<open>
  \<^verbatim>\<open>loadAdaptersAndDevicetypesInMemory\<close>: an adapter that cannot be added is logged and
  skipped; with no adapter in the store the sentinel adapter is added and the function
  returns; with no device type the sentinel device type is added.
\<close>

definition loadAdaptersAndDevicetypesInMemory :: "AdapterManager \<Rightarrow> error option \<times> AdapterManager" where
  "loadAdaptersAndDevicetypesInMemory aMgr =
     (case proxyListAdapters (clusterDataProxy aMgr) of
        Inl e \<Rightarrow> (Some e, aMgr)
      | Inr adapters \<Rightarrow>
          if adapters \<noteq> [] then
            (let aMgr1 = fold (\<lambda>a m. snd (addAdapter m a False)) adapters aMgr
             in case proxyListDeviceTypes (clusterDataProxy aMgr1) of
                  Inl e \<Rightarrow> (Some e, aMgr1)
                | Inr dTypes \<Rightarrow>
                    if dTypes \<noteq> [] then addDeviceTypes aMgr1 (Some dTypes) False
                    else addDeviceTypes aMgr1
                           (Some [deviceTypeWith SentinelDevicetypeID SentinelAdapterID]) True)
          else addAdapter aMgr (adapterWithId SentinelAdapterID) True)"

text \<open>
  \<^verbatim>\<open>updateLastAdapterCommunication\<close>: the bus delivers milliseconds since the epoch as an
  \<^verbatim>\<open>int64\<close>; Go's \<^verbatim>\<open>/\<close> and \<^verbatim>\<open>%\<close> round towards zero, and neither they nor the product
  can overflow. The second argument of \<^verbatim>\<open>time.Unix\<close> counts nanoseconds; what the code
  passes is the milliseconds within the second times 1000.
\<close>

definition updateLastAdapterCommunication ::
  "AdapterManager \<Rightarrow> string \<Rightarrow> int \<Rightarrow> time \<Rightarrow> AdapterManager" where
  "updateLastAdapterCommunication aMgr adapterID timestamp now =
     (case map_of (adapterAgents aMgr) adapterID of
        Some adapterAgent \<Rightarrow>
          aMgr\<lparr>adapterAgents :=
                 mapPut adapterID
                   (updateCommunicationTime adapterAgent
                      (timeUnix (timestamp sdiv 1000) (timestamp smod 1000 * 1000)) now)
                   (adapterAgents aMgr)\<rparr>
      | None \<Rightarrow> aMgr)"

text \<open>\<^verbatim>\<open>listAdapters\<close>: the error it returns is always nil.\<close>

definition listAdapters :: "AdapterManager \<Rightarrow> Adapter list" where
  "listAdapters aMgr =
     concat (map (\<lambda>(k, adapterAgent).
               (let a = getAdapter_aa adapterAgent
                in if aId a \<noteq> SentinelAdapterID then [a] else []))
             (adapterAgents aMgr))"

definition getAdapter :: "AdapterManager \<Rightarrow> string \<Rightarrow> Adapter option" where
  "getAdapter aMgr adapterID =
     (case map_of (adapterAgents aMgr) adapterID of
        Some adapterAgent \<Rightarrow> Some (getAdapter_aa adapterAgent)
      | None \<Rightarrow> None)"

definition getAdapterName :: "AdapterManager \<Rightarrow> string \<Rightarrow> error + string" where
  "getAdapterName aMgr deviceType =
     (case map_of (deviceTypeToAdapterMap aMgr) deviceType of
        Some adapterID \<Rightarrow> Inr adapterID
      | None \<Rightarrow> Inl (Plain (''Adapter-not-registered-for-device-type '' @ deviceType)))"

definition listDeviceTypes :: "AdapterManager \<Rightarrow> DeviceType list" where
  "listDeviceTypes aMgr =
     concat (map (\<lambda>(deviceTypeID, adapterID).
               (case map_of (adapterAgents aMgr) adapterID of
                  Some adapterAgent \<Rightarrow>
                    (case getDeviceType_aa adapterAgent deviceTypeID of
                       Some deviceType \<Rightarrow>
                         if dtId deviceType \<noteq> SentinelDevicetypeID then [deviceType] else []
                     | None \<Rightarrow> [])
                | None \<Rightarrow> []))
             (deviceTypeToAdapterMap aMgr))"

definition getDeviceType :: "AdapterManager \<Rightarrow> string \<Rightarrow> DeviceType option" where
  "getDeviceType aMgr deviceType =
     (case map_of (deviceTypeToAdapterMap aMgr) deviceType of
        Some adapterID \<Rightarrow>
          (case map_of (adapterAgents aMgr) adapterID of
             Some adapterAgent \<Rightarrow> getDeviceType_aa adapterAgent deviceType
           | None \<Rightarrow> None)
      | None \<Rightarrow> None)"

section \<open>Device manager (device\_manager.go)\<close>

subsection \<open>Devices\<close>

text \<open>
  The protobuf \<^verbatim>\<open>voltha.Device\<close> with the fields the manager reads. The \<^verbatim>\<open>uint32\<close>
  fields are integers between 0 and \<open>2\<^sup>3\<^sup>2 - 1\<close>; \<^verbatim>\<open>uint32(x)\<close> of an \<^verbatim>\<open>int64\<close> keeps
  the low 32 bits. \<open>ProxyAddress\<close> is a pointer and may be nil.
\<close>

definition uint32 :: "int \<Rightarrow> int" where
  "uint32 x = x mod 4294967296"

record Port_PeerPort =
  peerDeviceId :: string
  peerPortNo :: int

record Port =
  PortNo :: int
  Peers :: "Port_PeerPort list"

record Device_ProxyAddress =
  paDeviceId :: string
  paDeviceType :: string
  paChannelId :: int
  paOnuId :: int

datatype AdminState = UNKNOWN | PREPROVISIONED | ENABLED | DISABLED | DOWNLOADING_IMAGE | DELETED

record Device =
  Id :: string
  Type :: string
  Root :: bool
  ParentId :: string
  ParentPortNo :: int
  VendorId :: string
  SerialNumber :: string
  AdminState :: AdminState
  ProxyAddress :: "Device_ProxyAddress option"
  Ports :: "Port list"

text \<open>\<^verbatim>\<open>&voltha.Device{Id: x}\<close>\<close>

definition deviceWithId :: "string \<Rightarrow> Device" where
  "deviceWithId x =
     \<lparr>Id = x, Type = [], Root = False, ParentId = [], ParentPortNo = 0, VendorId = [],
      SerialNumber = [], AdminState = UNKNOWN, ProxyAddress = None, Ports = []\<rparr>"

text \<open>\<^verbatim>\<open>err.Error()\<close>: the text of an error; a gRPC status prints its code and message.\<close>

fun codeName :: "code \<Rightarrow> string" where
  "codeName NotFound = ''NotFound''"
| "codeName InvalidArgument = ''InvalidArgument''"
| "codeName Aborted = ''Aborted''"
| "codeName DataLoss = ''DataLoss''"
| "codeName AlreadyExists = ''AlreadyExists''"
| "codeName FailedPrecondition = ''FailedPrecondition''"
| "codeName Unavailable = ''Unavailable''"

fun errorString :: "error \<Rightarrow> string" where
  "errorString (Status c m) = ''rpc error: code = '' @ codeName c @ '' desc = '' @ m"
| "errorString (Plain m) = m"
| "errorString (Panic m) = m"

text \<open>The verb \<^verbatim>\<open>%d\<close> of \<^verbatim>\<open>Errorf\<close> on a count.\<close>

definition digitChar :: "nat \<Rightarrow> char" where
  "digitChar n = ''0123456789'' ! n"

fun showNat :: "nat \<Rightarrow> string" where
  "showNat n = (if n < 10 then [digitChar n] else showNat (n div 10) @ [digitChar (n mod 10)])"

declare showNat.simps [simp del]

subsection \<open>Device agents\<close>

text \<open>
  Modelled from the spec: the device agent (\<^verbatim>\<open>DeviceAgent\<close>, \<^verbatim>\<open>newDeviceAgent\<close>,
  \<^verbatim>\<open>start\<close>, \<^verbatim>\<open>stop\<close>, \<^verbatim>\<open>getDevice\<close>) is missing from the embedded files. An agent
  holds one device's record, which is authoritative while the agent exists;
  \<open>start(from_existing)\<close> hydrates the record from the KV store by the device id
  (not-found when the store has none) or else persists the in-memory record;
  \<open>get_device()\<close> returns the record; a KV transport failure is reported as
  unavailable. \<open>stop\<close> changes nothing the manager reads.
\<close>

record DeviceAgent =
  deviceId :: string
  deviceType :: string
  lastData :: Device

text \<open>
  \<^verbatim>\<open>type DeviceManager struct\<close>: the table of agents, and the device records that the
  cluster data proxy holds (\<open>clusterDevices\<close>; \<open>storeDown\<close> when it cannot be reached).
\<close>

record DeviceManager =
  deviceAgents :: "string \<rightharpoonup> DeviceAgent"
  clusterDevices :: "string \<rightharpoonup> Device"
  storeDown :: bool
  coreInstanceId :: string

definition newDeviceAgent :: "Device \<Rightarrow> DeviceAgent" where
  "newDeviceAgent device = \<lparr>deviceId = Id device, deviceType = Type device, lastData = device\<rparr>"

definition agentStart ::
  "DeviceAgent \<Rightarrow> bool \<Rightarrow> DeviceManager \<Rightarrow> error option \<times> DeviceAgent \<times> DeviceManager" where
  "agentStart agent fromExisting dMgr =
     (if storeDown dMgr then (Some (Status Unavailable (deviceId agent)), agent, dMgr)
      else if fromExisting then
        (case clusterDevices dMgr (deviceId agent) of
           None \<Rightarrow> (Some (Status NotFound (deviceId agent)), agent, dMgr)
         | Some d \<Rightarrow> (None, agent\<lparr>deviceType := Type d, lastData := d\<rparr>, dMgr))
      else (None, agent,
            dMgr\<lparr>clusterDevices := (clusterDevices dMgr)(deviceId agent \<mapsto> lastData agent)\<rparr>))"

definition agentGetDevice :: "DeviceAgent \<Rightarrow> error + Device" where
  "agentGetDevice agent = Inr (lastData agent)"

subsection \<open>The agent table\<close>

definition addDeviceAgentToMap :: "DeviceManager \<Rightarrow> DeviceAgent \<Rightarrow> DeviceManager" where
  "addDeviceAgentToMap dMgr agent =
     (if deviceAgents dMgr (deviceId agent) = None
      then dMgr\<lparr>deviceAgents := (deviceAgents dMgr)(deviceId agent \<mapsto> agent)\<rparr>
      else dMgr)"

definition deleteDeviceAgentToMap :: "DeviceManager \<Rightarrow> DeviceAgent \<Rightarrow> DeviceManager" where
  "deleteDeviceAgentToMap dMgr agent =
     dMgr\<lparr>deviceAgents := (deviceAgents dMgr)(deviceId agent := None)\<rparr>"

definition IsDeviceInCache :: "DeviceManager \<Rightarrow> string \<Rightarrow> bool" where
  "IsDeviceInCache dMgr i = (deviceAgents dMgr i \<noteq> None)"

text \<open>\<^verbatim>\<open>getAllChildDeviceIds\<close>: the error it returns is always nil.\<close>

definition getAllChildDeviceIds :: "Device \<Rightarrow> string list" where
  "getAllChildDeviceIds parentDevice =
     concat (map (\<lambda>port. map peerDeviceId (Peers port)) (Ports parentDevice))"

subsection \<open>Lookup and hydration\<close>

text \<open>
  \<^verbatim>\<open>getDeviceAgent\<close>, \<^verbatim>\<open>load\<close>, \<^verbatim>\<open>loadDevice\<close> and
  \<^verbatim>\<open>loadRootDeviceParentAndChildren\<close> call each other, and \<^verbatim>\<open>load\<close> follows parent
  ids for as long as it finds devices that are not roots. The first argument bounds the
  depth of the calls: \<open>None\<close> says that the bound was reached, \<open>Some\<close> gives what the
  call returns and the manager after it. Loading the logical device of a root device is
  the work of another manager; its failure is logged only and the device manager is not
  changed by it. \<open>loadChildren\<close> is the loop over the child ids.
\<close>

fun getDeviceAgent ::
      "nat \<Rightarrow> DeviceManager \<Rightarrow> string \<Rightarrow> (DeviceAgent option \<times> DeviceManager) option"
  and load :: "nat \<Rightarrow> DeviceManager \<Rightarrow> string \<Rightarrow> (error option \<times> DeviceManager) option"
  and loadDevice ::
      "nat \<Rightarrow> DeviceManager \<Rightarrow> string \<Rightarrow> ((error + DeviceAgent) \<times> DeviceManager) option"
  and loadRootDeviceParentAndChildren ::
      "nat \<Rightarrow> DeviceManager \<Rightarrow> Device \<Rightarrow> (error option \<times> DeviceManager) option"
  and loadChildren ::
      "nat \<Rightarrow> DeviceManager \<Rightarrow> string list \<Rightarrow> (error option \<times> DeviceManager) option"
where
  "getDeviceAgent 0 dMgr i = None"
| "getDeviceAgent (Suc n) dMgr i =
     (case deviceAgents dMgr i of
        Some agent \<Rightarrow> Some (Some agent, dMgr)
      | None \<Rightarrow>
          (case load n dMgr i of
             None \<Rightarrow> None
           | Some (None, dMgr') \<Rightarrow> Some (deviceAgents dMgr' i, dMgr')
           | Some (Some err, dMgr') \<Rightarrow> Some (None, dMgr')))"
| "load 0 dMgr i = None"
| "load (Suc n) dMgr i =
     (case loadDevice n dMgr i of
        None \<Rightarrow> None
      | Some (Inl err, dMgr1) \<Rightarrow> Some (Some err, dMgr1)
      | Some (Inr dAgent, dMgr1) \<Rightarrow>
          (case agentGetDevice dAgent of
             Inl err \<Rightarrow> Some (Some err, dMgr1)
           | Inr device \<Rightarrow>
               if AdminState device = PREPROVISIONED \<or> AdminState device = DELETED
               then Some (None, dMgr1)
               else if Root device then loadRootDeviceParentAndChildren n dMgr1 device
               else if ParentId device \<noteq> [] then load n dMgr1 (ParentId device)
               else Some (None, dMgr1)))"
| "loadDevice 0 dMgr i = None"
| "loadDevice (Suc n) dMgr i =
     (if i = [] then Some (Inl (Status InvalidArgument ''deviceId empty''), dMgr)
      else
        (case (if \<not> IsDeviceInCache dMgr i then
                 (case agentStart (newDeviceAgent (deviceWithId i)) True dMgr of
                    (Some err, agent, dMgr') \<Rightarrow> Inl (err, dMgr')
                  | (None, agent, dMgr') \<Rightarrow> Inr (addDeviceAgentToMap dMgr' agent))
               else Inr dMgr) of
           Inl (err, dMgr') \<Rightarrow> Some (Inl err, dMgr')
         | Inr dMgr1 \<Rightarrow>
             (case getDeviceAgent n dMgr1 i of
                None \<Rightarrow> None
              | Some (Some agent, dMgr2) \<Rightarrow> Some (Inr agent, dMgr2)
              | Some (None, dMgr2) \<Rightarrow> Some (Inl (Status NotFound i), dMgr2))))"
| "loadRootDeviceParentAndChildren 0 dMgr device = None"
| "loadRootDeviceParentAndChildren (Suc n) dMgr device =
     (if Root device then loadChildren n dMgr (getAllChildDeviceIds device)
      else Some (None, dMgr))"
| "loadChildren 0 dMgr cs = None"
| "loadChildren (Suc n) dMgr [] = Some (None, dMgr)"
| "loadChildren (Suc n) dMgr (childDeviceId # cs) =
     (case loadDevice n dMgr childDeviceId of
        None \<Rightarrow> None
      | Some (Inl err, dMgr1) \<Rightarrow> Some (Some err, dMgr1)
      | Some (Inr agent, dMgr1) \<Rightarrow> loadChildren n dMgr1 cs)"

definition GetDevice ::
  "nat \<Rightarrow> DeviceManager \<Rightarrow> string \<Rightarrow> ((error + Device) \<times> DeviceManager) option" where
  "GetDevice fuel dMgr i =
     (case getDeviceAgent fuel dMgr i of
        None \<Rightarrow> None
      | Some (Some agent, dMgr') \<Rightarrow> Some (agentGetDevice agent, dMgr')
      | Some (None, dMgr') \<Rightarrow> Some (Inl (Status NotFound i), dMgr'))"

subsection \<open>Finding a child device\<close>

text \<open>
  The test that the loop of \<^verbatim>\<open>GetChildDevice\<close> makes on a device it has fetched, once
  it has read the device's proxy address.
\<close>

definition childFound :: "string \<Rightarrow> int \<Rightarrow> int \<Rightarrow> Device \<Rightarrow> Device_ProxyAddress \<Rightarrow> bool" where
  "childFound serialNumber onuId parentPortNo searchDevice pa =
     (let foundOnuId =
            (paOnuId pa = uint32 onuId \<and> ParentPortNo searchDevice = uint32 parentPortNo);
          foundSerialNumber = (SerialNumber searchDevice = serialNumber)
      in if onuId > 0 \<and> serialNumber \<noteq> [] then foundOnuId \<and> foundSerialNumber
         else foundOnuId \<or> foundSerialNumber)"

text \<open>
  The loop: a child that cannot be fetched is passed over; reading the onu id of a
  fetched device that has no proxy address is a nil pointer dereference; the first
  device found ends the loop.
\<close>

fun childSearch ::
  "nat \<Rightarrow> DeviceManager \<Rightarrow> string \<Rightarrow> int \<Rightarrow> int \<Rightarrow> string list \<Rightarrow>
     ((error + Device option) \<times> DeviceManager) option" where
  "childSearch fuel dMgr serialNumber onuId parentPortNo [] = Some (Inr None, dMgr)"
| "childSearch fuel dMgr serialNumber onuId parentPortNo (childDeviceId # cs) =
     (case GetDevice fuel dMgr childDeviceId of
        None \<Rightarrow> None
      | Some (Inl err, dMgr1) \<Rightarrow> childSearch fuel dMgr1 serialNumber onuId parentPortNo cs
      | Some (Inr searchDevice, dMgr1) \<Rightarrow>
          (case ProxyAddress searchDevice of
             None \<Rightarrow> Some (Inl (Panic ''nil pointer dereference''), dMgr1)
           | Some pa \<Rightarrow>
               if childFound serialNumber onuId parentPortNo searchDevice pa
               then Some (Inr (Some searchDevice), dMgr1)
               else childSearch fuel dMgr1 serialNumber onuId parentPortNo cs))"

definition GetChildDevice ::
  "nat \<Rightarrow> DeviceManager \<Rightarrow> string \<Rightarrow> string \<Rightarrow> int \<Rightarrow> int \<Rightarrow>
     ((error + Device) \<times> DeviceManager) option" where
  "GetChildDevice fuel dMgr parentDeviceId serialNumber onuId parentPortNo =
     (case GetDevice fuel dMgr parentDeviceId of
        None \<Rightarrow> None
      | Some (Inl err, dMgr1) \<Rightarrow> Some (Inl (Status Aborted (errorString err)), dMgr1)
      | Some (Inr parentDevice, dMgr1) \<Rightarrow>
          (let childDeviceIds = getAllChildDeviceIds parentDevice
           in if childDeviceIds = [] then Some (Inl (Status NotFound parentDeviceId), dMgr1)
              else
                (case childSearch fuel dMgr1 serialNumber onuId parentPortNo childDeviceIds of
                   None \<Rightarrow> None
                 | Some (Inl err, dMgr2) \<Rightarrow> Some (Inl err, dMgr2)
                 | Some (Inr (Some foundChildDevice), dMgr2) \<Rightarrow> Some (Inr foundChildDevice, dMgr2)
                 | Some (Inr None, dMgr2) \<Rightarrow> Some (Inl (Status NotFound parentDeviceId), dMgr2))))"

subsection \<open>Creating and reconciling devices\<close>

text \<open>
  \<^verbatim>\<open>createDevice\<close>: the result is what \<^verbatim>\<open>sendResponse\<close> is given, the agent's last
  data. The error of \<^verbatim>\<open>agent.start\<close> is not looked at. Starting an agent with
  \<open>from_existing = false\<close> leaves its record as it is, so the agent that the table may
  hold needs no update after the start.
\<close>

definition createDevice :: "DeviceManager \<Rightarrow> Device \<Rightarrow> Device \<times> DeviceManager" where
  "createDevice dMgr device =
     (let device' = device\<lparr>Root := True\<rparr>;
          agent = newDeviceAgent device';
          dMgr1 = addDeviceAgentToMap dMgr agent;
          (err, agent', dMgr2) = agentStart agent False dMgr1
      in (lastData agent', dMgr2))"

text \<open>
  The loop of \<^verbatim>\<open>ReconcileDevices\<close>, with the count \<open>reconciled\<close> it keeps, and the
  function: \<open>ids\<close> is a pointer, nil or a list of ids. The result is what
  \<^verbatim>\<open>sendResponse\<close> is given: nil or an error.
\<close>

fun reconcileLoop :: "DeviceManager \<Rightarrow> nat \<Rightarrow> string list \<Rightarrow> nat \<times> DeviceManager" where
  "reconcileLoop dMgr reconciled [] = (reconciled, dMgr)"
| "reconcileLoop dMgr reconciled (i # rest) =
     (if \<not> IsDeviceInCache dMgr i then
        (case agentStart (newDeviceAgent (deviceWithId i)) True dMgr of
           (Some err, agent, dMgr') \<Rightarrow> reconcileLoop dMgr' reconciled rest
         | (None, agent, dMgr') \<Rightarrow>
             reconcileLoop (addDeviceAgentToMap dMgr' agent) (reconciled + 1) rest)
      else reconcileLoop dMgr (reconciled + 1) rest)"

definition ReconcileDevices ::
  "DeviceManager \<Rightarrow> string list option \<Rightarrow> error option \<times> DeviceManager" where
  "ReconcileDevices dMgr ids =
     (case ids of
        Some items \<Rightarrow>
          (let toReconcile = length items;
               (reconciled, dMgr') = reconcileLoop dMgr 0 items
           in (if toReconcile \<noteq> reconciled
               then Some (Status DataLoss
                      (''less-device-reconciled:'' @ showNat reconciled @ ''/'' @ showNat toReconcile))
               else None,
               dMgr'))
      | None \<Rightarrow> (Some (Status InvalidArgument ''empty-list-of-ids''), dMgr))"

subsection \<open>State transitions\<close>

text \<open>
  A transition handler is a function of the manager on a device that returns an error
  or nil; \<open>'w\<close> is all that handlers act on (the manager and its collaborators). The
  transition map is missing from the embedded files: \<^verbatim>\<open>GetTransitionHandler\<close> is a
  parameter, returning nil (\<open>None\<close>) or a slice of handlers.
\<close>

type_synonym 'w TransitionHandler = "'w \<Rightarrow> Device \<Rightarrow> error option \<times> 'w"

fun runHandlers :: "'w TransitionHandler list \<Rightarrow> 'w \<Rightarrow> Device \<Rightarrow> error option \<times> 'w" where
  "runHandlers [] w current = (None, w)"
| "runHandlers (handler # rest) w current =
     (case handler w current of
        (Some err, w') \<Rightarrow> (Some err, w')
      | (None, w') \<Rightarrow> runHandlers rest w' current)"

definition processTransition ::
  "(Device \<Rightarrow> Device \<Rightarrow> 'w TransitionHandler list option) \<Rightarrow> 'w \<Rightarrow> Device \<Rightarrow> Device \<Rightarrow>
     error option \<times> 'w" where
  "processTransition GetTransitionHandler w previous current =
     (case GetTransitionHandler previous current of
        None \<Rightarrow> (None, w)
      | Some handlers \<Rightarrow> runHandlers handlers w current)"

definition activateDevice :: "'w TransitionHandler" where
  "activateDevice w cDevice = (None, w)"

definition disableDeviceHandler :: "'w TransitionHandler" where
  "disableDeviceHandler w cDevice = (None, w)"

definition abandonDevice :: "'w TransitionHandler" where
  "abandonDevice w cDevice = (None, w)"

definition reEnableDevice :: "'w TransitionHandler" where
  "reEnableDevice w cDevice = (None, w)"

definition noOp :: "'w TransitionHandler" where
  "noOp w cDevice = (None, w)"

definition notAllowed :: "'w TransitionHandler" where
  "notAllowed w pcDevice = (Some (Plain ''Transition-not-allowed''), w)"

section \<open>Notions of the specification and example states\<close>

subsection \<open>Ownership\<close>

text \<open>
  What a reservation made now for device \<open>i\<close> would return and leave in the store, and
  the spec's test of ownership on it: the returned value, read as a string, is the
  replica's own instance id.
\<close>

definition reserveReply :: "('s, 'v) DeviceOwnership \<Rightarrow> string \<Rightarrow> 'v option" where
  "reserveReply da i =
     fst (fst (Reserve (kvClient da) (kvState da) (kvKey da i) (instanceId da)
       (reservationTimeout da)))"

definition reserveStore :: "('s, 'v) DeviceOwnership \<Rightarrow> string \<Rightarrow> 's" where
  "reserveStore da i =
     snd (Reserve (kvClient da) (kvState da) (kvKey da i) (instanceId da) (reservationTimeout da))"

definition holdsLease :: "('s, 'v) DeviceOwnership \<Rightarrow> string \<Rightarrow> bool" where
  "holdsLease da i =
     (case reserveReply da i of
        None \<Rightarrow> False
      | Some v \<Rightarrow> fst (ToString (kvClient da) v) = instanceId da)"

text \<open>
  The spec's test on the value itself: \<^verbatim>\<open>Reserve\<close> has returned a value, and the value
  is the replica's instance id (it decodes, with no error, to that string). And the
  proviso under which the code's test and the spec's agree: a decoding that fails does
  not return the instance id as its string.
\<close>

definition replyIsInstanceId :: "('s, 'v) DeviceOwnership \<Rightarrow> string \<Rightarrow> bool" where
  "replyIsInstanceId da i =
     (case reserveReply da i of
        None \<Rightarrow> False
      | Some v \<Rightarrow> ToString (kvClient da) v = (instanceId da, None))"

definition failedDecodeIsNotId :: "('s, 'v) DeviceOwnership \<Rightarrow> string \<Rightarrow> bool" where
  "failedDecodeIsNotId da i =
     (case reserveReply da i of
        None \<Rightarrow> True
      | Some v \<Rightarrow>
          (case ToString (kvClient da) v of
             (s, None) \<Rightarrow> True
           | (s, Some e) \<Rightarrow> s \<noteq> instanceId da))"

text \<open>
  Replica \<open>A\<close> on an empty store; \<open>A\<close> after it has asked for device \<open>x\<close>; \<open>A\<close>
  after its lease on \<open>x\<close> has lapsed and replica \<open>B\<close> has reserved the key; and \<open>A\<close>
  after it has asked for \<open>x\<close> while \<open>B\<close> held the key. A replica
  with an empty instance id, on a store whose key for \<open>x\<close> holds a value that is no
  string; and a replica that cannot reach its store.
\<close>

definition replicaA :: "(string \<rightharpoonup> kvValue, kvValue) DeviceOwnership" where
  "replicaA = NewDeviceOwnership ''A'' (leaseStore ''A'') Map.empty ''own'' 30"

definition replicaAOwning :: "(string \<rightharpoonup> kvValue, kvValue) DeviceOwnership" where
  "replicaAOwning = snd (getOwnership replicaA ''x'')"

definition replicaAAfterHandoff :: "(string \<rightharpoonup> kvValue, kvValue) DeviceOwnership" where
  "replicaAAfterHandoff = replicaAOwning\<lparr>kvState := [''own_x'' \<mapsto> StringValue ''B'']\<rparr>"

definition replicaAWaiting :: "(string \<rightharpoonup> kvValue, kvValue) DeviceOwnership" where
  "replicaAWaiting =
     snd (getOwnership (replicaA\<lparr>kvState := [''own_x'' \<mapsto> StringValue ''B'']\<rparr>) ''x'')"

definition replicaNoId :: "(string \<rightharpoonup> kvValue, kvValue) DeviceOwnership" where
  "replicaNoId = NewDeviceOwnership [] (leaseStore []) [''own_x'' \<mapsto> OtherValue] ''own'' 30"

definition replicaCutOff :: "(unit, kvValue) DeviceOwnership" where
  "replicaCutOff = NewDeviceOwnership ''A'' deadStore () ''own'' 30"

subsection \<open>Adapter registry\<close>

text \<open>
  The instant an adapter's stored timestamp stands for, when the timestamp is valid; the
  spec's condition for taking a new time; the times that \<^verbatim>\<open>ptypes.TimestampProto\<close> can
  encode, and the encoding.
\<close>

definition storedTime :: "AdapterAgent \<Rightarrow> time option" where
  "storedTime aa =
     (case ptypesTimestamp (aLastCommunication (adapter aa)) of
        (t, None) \<Rightarrow> Some t
      | (t, Some e) \<Rightarrow> None)"

definition accepted :: "AdapterAgent \<Rightarrow> time \<Rightarrow> time \<Rightarrow> bool" where
  "accepted aa new now =
     (new \<le> now \<and> (case storedTime aa of None \<Rightarrow> True | Some old \<Rightarrow> old < new))"

definition encodable :: "time \<Rightarrow> bool" where
  "encodable t = (minValidSeconds \<le> t div 1000000000 \<and> t div 1000000000 < maxValidSeconds)"

definition encoded :: "time \<Rightarrow> Timestamp" where
  "encoded t = \<lparr>Seconds = t div 1000000000, Nanos = t mod 1000000000\<rparr>"

text \<open>
  The instant that the bus delivers: \<open>epoch_ms\<close> milliseconds after the epoch.
\<close>

definition deliveredTime :: "int \<Rightarrow> time" where
  "deliveredTime epoch_ms = epoch_ms * 1000000"

text \<open>
  A registry loaded from a store that holds one adapter and no device type, and the
  agent it holds for that adapter.
\<close>

definition storeWithOneAdapter :: Proxy where
  "storeWithOneAdapter =
     \<lparr>kvAdapters = [(''a1'', adapterWithId ''a1'')], kvDeviceTypes = [], unreachable = False\<rparr>"

definition loadedRegistry :: AdapterManager where
  "loadedRegistry =
     snd (loadAdaptersAndDevicetypesInMemory (newAdapterManager storeWithOneAdapter ''core1''))"

definition freshAgent :: AdapterAgent where
  "freshAgent = newAdapterAgent (adapterWithId ''a1'') None"

text \<open>The same registry after the device type \<open>dt1\<close> of adapter \<open>a1\<close> was added.\<close>

definition registryWithType :: AdapterManager where
  "registryWithType =
     snd (addDeviceTypes loadedRegistry (Some [deviceTypeWith ''dt1'' ''a1'']) False)"

subsection \<open>Device manager\<close>

text \<open>
  The devices that \<^verbatim>\<open>GetChildDevice\<close> enumerates: the child ids fetched one after the
  other, those that cannot be fetched left out. The matching rule of the spec on a child,
  with the \<^verbatim>\<open>int64\<close> arguments taken to \<^verbatim>\<open>uint32\<close> as the code does before it compares.
\<close>

fun fetchChildren ::
  "nat \<Rightarrow> DeviceManager \<Rightarrow> string list \<Rightarrow> (Device list \<times> DeviceManager) option" where
  "fetchChildren fuel dMgr [] = Some ([], dMgr)"
| "fetchChildren fuel dMgr (c # cs) =
     (case GetDevice fuel dMgr c of
        None \<Rightarrow> None
      | Some (r, dMgr1) \<Rightarrow>
          (case fetchChildren fuel dMgr1 cs of
             None \<Rightarrow> None
           | Some (ds, dMgr2) \<Rightarrow> Some ((case r of Inl e \<Rightarrow> ds | Inr d \<Rightarrow> d # ds), dMgr2)))"

definition matchingRule :: "string \<Rightarrow> int \<Rightarrow> int \<Rightarrow> Device \<Rightarrow> bool" where
  "matchingRule serial_no onu_id parent_port child =
     (let onuMatch = (map_option paOnuId (ProxyAddress child) = Some (uint32 onu_id) \<and>
                      ParentPortNo child = uint32 parent_port);
          serialMatch = (SerialNumber child = serial_no)
      in if onu_id > 0 \<and> serial_no \<noteq> [] then onuMatch \<and> serialMatch
         else onuMatch \<or> serialMatch)"

text \<open>
  \<^verbatim>\<open>status.Code(err)\<close> of gRPC: the code of a status, none for an error that is no
  status.
\<close>

fun statusCode :: "error \<Rightarrow> code option" where
  "statusCode (Status c m) = Some c"
| "statusCode (Plain m) = None"
| "statusCode (Panic m) = None"

text \<open>A handler that succeeds and counts its calls in the state.\<close>

definition countCalls :: "nat TransitionHandler" where
  "countCalls w cDevice = (None, Suc w)"

text \<open>
  Two devices with the same id and different types; a manager with no agent, and the
  manager after the first device was created in it.
\<close>

definition oltDevice :: Device where
  "oltDevice = (deviceWithId ''d1'')\<lparr>Type := ''olt'', Root := True\<rparr>"

definition onuDevice :: Device where
  "onuDevice = (deviceWithId ''d1'')\<lparr>Type := ''onu''\<rparr>"

definition emptyManager :: DeviceManager where
  "emptyManager =
     \<lparr>deviceAgents = Map.empty, clusterDevices = Map.empty, storeDown = False,
      coreInstanceId = ''core1''\<rparr>"

definition oltManager :: DeviceManager where
  "oltManager = snd (createDevice emptyManager oltDevice)"

text \<open>
  A manager holding two root devices, each with one port and one peer on it: \<open>onu1\<close>
  has a proxy address (onu id 5), \<open>onu2\<close> has none.
\<close>

definition onu1 :: Device where
  "onu1 = (deviceWithId ''onu1'')
     \<lparr>Type := ''onu'', ParentId := ''olt1'', ParentPortNo := 1, SerialNumber := ''S1'',
      ProxyAddress := Some \<lparr>paDeviceId = ''olt1'', paDeviceType = ''olt'', paChannelId = 0,
                            paOnuId = 5\<rparr>\<rparr>"

definition onu2 :: Device where
  "onu2 = (deviceWithId ''onu2'')
     \<lparr>Type := ''onu'', ParentId := ''olt2'', ParentPortNo := 1, SerialNumber := ''S2''\<rparr>"

definition olt1 :: Device where
  "olt1 = (deviceWithId ''olt1'')
     \<lparr>Type := ''olt'', Root := True,
      Ports := [\<lparr>PortNo = 1, Peers = [\<lparr>peerDeviceId = ''onu1'', peerPortNo = 1\<rparr>]\<rparr>]\<rparr>"

definition olt2 :: Device where
  "olt2 = (deviceWithId ''olt2'')
     \<lparr>Type := ''olt'', Root := True,
      Ports := [\<lparr>PortNo = 1, Peers = [\<lparr>peerDeviceId = ''onu2'', peerPortNo = 1\<rparr>]\<rparr>]\<rparr>"

definition treeManager :: DeviceManager where
  "treeManager =
     \<lparr>deviceAgents = [''olt1'' \<mapsto> newDeviceAgent olt1, ''onu1'' \<mapsto> newDeviceAgent onu1,
                      ''olt2'' \<mapsto> newDeviceAgent olt2, ''onu2'' \<mapsto> newDeviceAgent onu2],
      clusterDevices = [''olt1'' \<mapsto> olt1, ''onu1'' \<mapsto> onu1, ''olt2'' \<mapsto> olt2, ''onu2'' \<mapsto> onu2],
      storeDown = False, coreInstanceId = ''core1''\<rparr>"

text \<open>
  A manager for two more root devices. The peers of \<open>olt3\<close>, over its two ports, are an
  id that no agent and no stored record has, \<open>onu1\<close>, then \<open>onu3\<close> and \<open>onu4\<close>, which
  have the same serial number, and last \<open>onu2\<close>, which has no proxy address. The peers
  of \<open>olt4\<close> are \<open>onu1\<close>, \<open>onu3\<close> and \<open>onu4\<close>.
\<close>

definition onu3 :: Device where
  "onu3 = (deviceWithId ''onu3'')
     \<lparr>Type := ''onu'', ParentId := ''olt3'', ParentPortNo := 1, SerialNumber := ''S3'',
      ProxyAddress := Some \<lparr>paDeviceId = ''olt3'', paDeviceType = ''olt'', paChannelId = 0,
                            paOnuId = 7\<rparr>\<rparr>"

definition onu4 :: Device where
  "onu4 = (deviceWithId ''onu4'')
     \<lparr>Type := ''onu'', ParentId := ''olt3'', ParentPortNo := 2, SerialNumber := ''S3'',
      ProxyAddress := Some \<lparr>paDeviceId = ''olt3'', paDeviceType = ''olt'', paChannelId = 0,
                            paOnuId = 8\<rparr>\<rparr>"

definition olt3 :: Device where
  "olt3 = (deviceWithId ''olt3'')
     \<lparr>Type := ''olt'', Root := True,
      Ports := [\<lparr>PortNo = 1, Peers = [\<lparr>peerDeviceId = ''gone'', peerPortNo = 1\<rparr>,
                                       \<lparr>peerDeviceId = ''onu1'', peerPortNo = 1\<rparr>,
                                       \<lparr>peerDeviceId = ''onu3'', peerPortNo = 1\<rparr>]\<rparr>,
                \<lparr>PortNo = 2, Peers = [\<lparr>peerDeviceId = ''onu4'', peerPortNo = 1\<rparr>,
                                       \<lparr>peerDeviceId = ''onu2'', peerPortNo = 1\<rparr>]\<rparr>]\<rparr>"

definition olt4 :: Device where
  "olt4 = (deviceWithId ''olt4'')
     \<lparr>Type := ''olt'', Root := True,
      Ports := [\<lparr>PortNo = 1, Peers = [\<lparr>peerDeviceId = ''onu1'', peerPortNo = 1\<rparr>,
                                       \<lparr>peerDeviceId = ''onu3'', peerPortNo = 1\<rparr>,
                                       \<lparr>peerDeviceId = ''onu4'', peerPortNo = 1\<rparr>]\<rparr>]\<rparr>"

definition familyManager :: DeviceManager where
  "familyManager =
     \<lparr>deviceAgents = [''olt3'' \<mapsto> newDeviceAgent olt3, ''olt4'' \<mapsto> newDeviceAgent olt4,
                      ''onu1'' \<mapsto> newDeviceAgent onu1, ''onu2'' \<mapsto> newDeviceAgent onu2,
                      ''onu3'' \<mapsto> newDeviceAgent onu3, ''onu4'' \<mapsto> newDeviceAgent onu4],
      clusterDevices = [''olt3'' \<mapsto> olt3, ''olt4'' \<mapsto> olt4, ''onu1'' \<mapsto> onu1, ''onu2'' \<mapsto> onu2,
                        ''onu3'' \<mapsto> onu3, ''onu4'' \<mapsto> onu4],
      storeDown = False, coreInstanceId = ''core1''\<rparr>"

section \<open>Properties of the ownership arbiter\<close>

subsection \<open>Reservations\<close>

lemma tryToReserveKey_result: "fst (tryToReserveKey da i) = holdsLease da i"
  by (simp add: tryToReserveKey_def holdsLease_def reserveReply_def Let_def
      split: prod.splits option.splits)

lemma tryToReserveKey_state:
  "snd (tryToReserveKey da i) =
     da\<lparr>kvState := reserveStore da i,
        kvCalls := kvCalls da @ [ReserveCall (kvKey da i) (instanceId da) (reservationTimeout da)]\<rparr>"
  by (simp add: tryToReserveKey_def reserveStore_def Let_def split: prod.splits option.splits)

lemma tryToReserveKey_deviceMap: "deviceMap (snd (tryToReserveKey da i)) = deviceMap da"
  by (simp add: tryToReserveKey_state)

lemma getOwnership_fresh:
  "deviceMap da i = None \<Longrightarrow> fst (getOwnership da i) = fst (tryToReserveKey da i)"
  by (simp add: getOwnership_def Let_def split: prod.splits)

lemma holdsLease_replyIsInstanceId:
  "failedDecodeIsNotId da i \<Longrightarrow> holdsLease da i = replyIsInstanceId da i"
  by (auto simp add: holdsLease_def replyIsInstanceId_def failedDecodeIsNotId_def
      split: option.splits prod.splits)

lemma goToString_failedDecode:
  "ToString (kvClient da) = goToString \<Longrightarrow> instanceId da \<noteq> [] \<Longrightarrow> failedDecodeIsNotId da i"
proof -
  have w: "\<And>w s e. goToString w = (s, Some e) \<Longrightarrow> s = []"
    subgoal for w s e by (cases w) simp_all
    done
  show "ToString (kvClient da) = goToString \<Longrightarrow> instanceId da \<noteq> [] \<Longrightarrow>
      failedDecodeIsNotId da i"
    using w by (auto simp add: failedDecodeIsNotId_def split: option.splits prod.splits)
qed

text \<open>
  C2 as stated fails: for a replica whose instance id is the empty string and an id with
  no entry, \<^verbatim>\<open>Reserve\<close> returns a value that is no string; the failed decoding leaves
  the empty string, and \<^verbatim>\<open>getOwnership\<close> returns true although the value returned is
  not the replica's instance id.
\<close>

theorem getOwnership_true_on_undecodable_value:
  "deviceMap replicaNoId ''x'' = None \<and>
   reserveReply replicaNoId ''x'' = Some OtherValue \<and>
   ToString (kvClient replicaNoId) OtherValue = ([], Some (Plain ''unexpected-type'')) \<and>
   fst (getOwnership replicaNoId ''x'') = True \<and>
   replyIsInstanceId replicaNoId ''x'' = False"
  by (simp add: reserveReply_def replyIsInstanceId_def replicaNoId_def NewDeviceOwnership_def
      kvKey_def leaseStore_def tryToReserveKey_def getOwnership_def Let_def)

text \<open>
  C2, amended. For every device id: when an ownership entry exists, \<^verbatim>\<open>getOwnership\<close>
  (which is \<open>owned_by_me?\<close>) returns the entry's flag and leaves the arbiter, the store
  and the list of calls on the client as they are. When none exists, it makes exactly
  one \<^verbatim>\<open>Reserve\<close> call, creates the entry with the result it returns as the flag, and
  starts one monitor goroutine for the id on the entry's channel; and it returns true
  iff the value that \<^verbatim>\<open>Reserve\<close> returned is this replica's instance id, provided
  that a decoding that fails does not return the instance id as its string: with a
  decoder that returns the empty string on failure, as Go's does, for every replica
  whose instance id is not empty.
\<close>

theorem getOwnership_entry_or_reserve:
  "(deviceMap da i = Some val \<longrightarrow> getOwnership da i = (owned val, da)) \<and>
   (deviceMap da i = None \<longrightarrow>
      kvCalls (snd (getOwnership da i)) =
        kvCalls da @ [ReserveCall (kvKey da i) (instanceId da) (reservationTimeout da)] \<and>
      kvState (snd (getOwnership da i)) = reserveStore da i \<and>
      deviceMap (snd (getOwnership da i)) =
        (deviceMap da)(i \<mapsto> \<lparr>id' = i, owned = fst (getOwnership da i), chnl = nextChan da\<rparr>) \<and>
      goroutines (snd (getOwnership da i)) = goroutines da @ [(i, nextChan da)] \<and>
      (failedDecodeIsNotId da i \<longrightarrow> fst (getOwnership da i) = replyIsInstanceId da i) \<and>
      (ToString (kvClient da) = goToString \<and> instanceId da \<noteq> [] \<longrightarrow>
         fst (getOwnership da i) = replyIsInstanceId da i))"
proof -
  obtain r da1 where t: "tryToReserveKey da i = (r, da1)"
    by (cases "tryToReserveKey da i")
  have r: "r = holdsLease da i"
    using tryToReserveKey_result [of da i] t by simp
  have s: "da1 = da\<lparr>kvState := reserveStore da i,
        kvCalls := kvCalls da @ [ReserveCall (kvKey da i) (instanceId da) (reservationTimeout da)]\<rparr>"
    using tryToReserveKey_state [of da i] t by simp
  show ?thesis
    using holdsLease_replyIsInstanceId [of da i] goToString_failedDecode [of da i]
    by (auto simp add: getOwnership_def t r s Let_def)
qed

text \<open>
  Replica \<open>A\<close> asks for \<open>x\<close> on an empty store: one reservation, which returns \<open>A\<close>, an
  entry that is owned, one goroutine; asking again answers from the entry and changes
  nothing. Replica \<open>A\<close> on a store whose key holds a value that is no string: the value
  is not \<open>A\<close> and the answer is false.
\<close>

theorem getOwnership_entry_or_reserve_witness:
  "deviceMap replicaA ''x'' = None \<and>
   failedDecodeIsNotId replicaA ''x'' \<and>
   replyIsInstanceId replicaA ''x'' \<and>
   fst (getOwnership replicaA ''x'') \<and>
   kvCalls (snd (getOwnership replicaA ''x'')) = [ReserveCall ''own_x'' ''A'' 30] \<and>
   kvState (snd (getOwnership replicaA ''x'')) = [''own_x'' \<mapsto> StringValue ''A''] \<and>
   deviceMap (snd (getOwnership replicaA ''x'')) ''x'' =
     Some \<lparr>id' = ''x'', owned = True, chnl = 0\<rparr> \<and>
   goroutines (snd (getOwnership replicaA ''x'')) = [(''x'', 0)] \<and>
   getOwnership (snd (getOwnership replicaA ''x'')) ''x'' = (True, snd (getOwnership replicaA ''x'')) \<and>
   instanceId (replicaNoId\<lparr>instanceId := ''A''\<rparr>) \<noteq> [] \<and>
   fst (getOwnership (replicaNoId\<lparr>instanceId := ''A''\<rparr>) ''x'') = False \<and>
   replyIsInstanceId (replicaNoId\<lparr>instanceId := ''A''\<rparr>) ''x'' = False"
proof -
  have a: "deviceMap replicaA ''x'' = None"
    by (simp add: replicaA_def NewDeviceOwnership_def)
  have h: "replyIsInstanceId replicaA ''x''" "failedDecodeIsNotId replicaA ''x''"
    by (simp_all add: replyIsInstanceId_def failedDecodeIsNotId_def reserveReply_def replicaA_def
        NewDeviceOwnership_def kvKey_def leaseStore_def)
  have st: "reserveStore replicaA ''x'' = [''own_x'' \<mapsto> StringValue ''A'']"
    by (simp add: reserveStore_def replicaA_def NewDeviceOwnership_def kvKey_def leaseStore_def)
  have k: "kvKey replicaA ''x'' = ''own_x''" "instanceId replicaA = ''A''"
    "reservationTimeout replicaA = 30" "kvCalls replicaA = []" "goroutines replicaA = []"
    "nextChan replicaA = 0"
    by (simp_all add: replicaA_def NewDeviceOwnership_def kvKey_def)
  have first: "fst (getOwnership replicaA ''x'') \<and>
      kvCalls (snd (getOwnership replicaA ''x'')) = [ReserveCall ''own_x'' ''A'' 30] \<and>
      kvState (snd (getOwnership replicaA ''x'')) = [''own_x'' \<mapsto> StringValue ''A''] \<and>
      deviceMap (snd (getOwnership replicaA ''x'')) ''x'' =
        Some \<lparr>id' = ''x'', owned = True, chnl = 0\<rparr> \<and>
      goroutines (snd (getOwnership replicaA ''x'')) = [(''x'', 0)]"
    using getOwnership_entry_or_reserve [of replicaA "''x''"
        "\<lparr>id' = ''x'', owned = True, chnl = 0\<rparr>"] a h st k
    by simp
  then have e: "deviceMap (snd (getOwnership replicaA ''x'')) ''x'' =
      Some \<lparr>id' = ''x'', owned = True, chnl = 0\<rparr>"
    by blast
  have again: "getOwnership (snd (getOwnership replicaA ''x'')) ''x'' =
      (True, snd (getOwnership replicaA ''x''))"
    using getOwnership_entry_or_reserve [of "snd (getOwnership replicaA ''x'')" "''x''"
        "\<lparr>id' = ''x'', owned = True, chnl = 0\<rparr>"] e
    by simp
  have b: "deviceMap (replicaNoId\<lparr>instanceId := ''A''\<rparr>) ''x'' = None"
    "ToString (kvClient (replicaNoId\<lparr>instanceId := ''A''\<rparr>)) = goToString"
    "instanceId (replicaNoId\<lparr>instanceId := ''A''\<rparr>) \<noteq> []"
    "replyIsInstanceId (replicaNoId\<lparr>instanceId := ''A''\<rparr>) ''x'' = False"
    by (simp_all add: replyIsInstanceId_def reserveReply_def replicaNoId_def
        NewDeviceOwnership_def leaseStore_def kvKey_def)
  have c: "fst (getOwnership (replicaNoId\<lparr>instanceId := ''A''\<rparr>) ''x'') = False"
    using getOwnership_entry_or_reserve [of "replicaNoId\<lparr>instanceId := ''A''\<rparr>" "''x''"
        "\<lparr>id' = ''x'', owned = True, chnl = 0\<rparr>"] b
    by simp
  show ?thesis using a h first again b c by simp
qed

text \<open>
  C10 as stated fails: a replica whose instance id is the empty string gets a value that
  does not decode, the failed decoding leaves the empty string as current owner, and
  \<^verbatim>\<open>tryToReserveKey\<close> and \<^verbatim>\<open>getOwnership\<close> return true.
\<close>

theorem undecodable_owner_empty_instance_id:
  "reserveReply replicaNoId ''x'' = Some OtherValue \<and>
   snd (ToString (kvClient replicaNoId) OtherValue) = Some (Plain ''unexpected-type'') \<and>
   deviceMap replicaNoId ''x'' = None \<and>
   fst (tryToReserveKey replicaNoId ''x'') \<and>
   fst (getOwnership replicaNoId ''x'')"
  by (simp add: reserveReply_def replicaNoId_def NewDeviceOwnership_def kvKey_def leaseStore_def
      tryToReserveKey_def getOwnership_def Let_def)

text \<open>
  C10, amended. When \<^verbatim>\<open>Reserve\<close> returns no value, \<^verbatim>\<open>tryToReserveKey\<close> returns false,
  and so does \<^verbatim>\<open>getOwnership\<close> on an id with no entry. When it returns a value that
  cannot be decoded, both return false provided the string that the failed decoding
  returns differs from the instance id; with a decoder that returns the empty string on
  failure, as Go's does, that is so for every replica whose instance id is not empty.
\<close>

theorem kv_failure_not_owned:
  "(reserveReply da i = None \<longrightarrow>
      \<not> fst (tryToReserveKey da i) \<and> (deviceMap da i = None \<longrightarrow> \<not> fst (getOwnership da i))) \<and>
   (reserveReply da i = Some v \<and> snd (ToString (kvClient da) v) \<noteq> None \<and>
    fst (ToString (kvClient da) v) \<noteq> instanceId da \<longrightarrow>
      \<not> fst (tryToReserveKey da i) \<and> (deviceMap da i = None \<longrightarrow> \<not> fst (getOwnership da i))) \<and>
   (reserveReply da i = Some w \<and> ToString (kvClient da) = goToString \<and>
    snd (goToString w) \<noteq> None \<and> instanceId da \<noteq> [] \<longrightarrow>
      \<not> fst (tryToReserveKey da i) \<and> (deviceMap da i = None \<longrightarrow> \<not> fst (getOwnership da i)))"
proof -
  have w: "snd (goToString w) \<noteq> None \<Longrightarrow> fst (goToString w) = []"
    by (cases w) simp_all
  show ?thesis
    using getOwnership_fresh [of da i] w
    by (auto simp add: tryToReserveKey_result holdsLease_def)
qed

text \<open>
  A replica that cannot reach its store, and replica \<open>A\<close> on a store whose key holds a
  value that is no string: neither owns \<open>x\<close>.
\<close>

theorem kv_failure_not_owned_witness:
  "reserveReply replicaCutOff ''x'' = None \<and>
   \<not> fst (tryToReserveKey replicaCutOff ''x'') \<and> \<not> fst (getOwnership replicaCutOff ''x'') \<and>
   reserveReply (replicaNoId\<lparr>instanceId := ''A''\<rparr>) ''x'' = Some OtherValue \<and>
   \<not> fst (tryToReserveKey (replicaNoId\<lparr>instanceId := ''A''\<rparr>) ''x'') \<and>
   \<not> fst (getOwnership (replicaNoId\<lparr>instanceId := ''A''\<rparr>) ''x'')"
proof -
  have a: "reserveReply replicaCutOff ''x'' = None" "deviceMap replicaCutOff ''x'' = None"
    by (simp_all add: reserveReply_def replicaCutOff_def NewDeviceOwnership_def deadStore_def)
  have b: "reserveReply (replicaNoId\<lparr>instanceId := ''A''\<rparr>) ''x'' = Some OtherValue"
    "deviceMap (replicaNoId\<lparr>instanceId := ''A''\<rparr>) ''x'' = None"
    "ToString (kvClient (replicaNoId\<lparr>instanceId := ''A''\<rparr>)) = goToString"
    "instanceId (replicaNoId\<lparr>instanceId := ''A''\<rparr>) \<noteq> []"
    by (simp_all add: reserveReply_def replicaNoId_def NewDeviceOwnership_def leaseStore_def
        kvKey_def)
  show ?thesis
    using kv_failure_not_owned [of replicaCutOff "''x''" OtherValue OtherValue]
      kv_failure_not_owned [of "replicaNoId\<lparr>instanceId := ''A''\<rparr>" "''x''" OtherValue OtherValue]
      a b
    by simp
qed

subsection \<open>The monitor\<close>

lemma renewBranch_deviceMap: "deviceMap (renewBranch da i) = deviceMap da"
  by (simp add: renewBranch_def Let_def split: prod.splits)

lemma renewBranch_kvCalls: "kvCalls (renewBranch da i) = kvCalls da @ [RenewCall (kvKey da i)]"
  by (simp add: renewBranch_def Let_def split: prod.splits)

lemma monitorTick_owned:
  "deviceMap da i = Some val \<Longrightarrow> owned val \<Longrightarrow> monitorTick da i = renewBranch da i"
  by (simp add: monitorTick_def)

lemma monitoring_owned:
  "deviceMap da i = Some val \<Longrightarrow> owned val \<Longrightarrow>
   deviceMap (startOwnershipMonitoring da i cs) = deviceMap da"
proof (induction cs arbitrary: da)
  case Nil
  then show ?case by (simp add: monitorTick_owned renewBranch_deviceMap)
next
  case (Cons c cs)
  show ?case
  proof (cases c)
    case TimeAfter
    have "deviceMap (monitorTick da i) i = Some val"
      using Cons.prems by (simp add: monitorTick_owned renewBranch_deviceMap)
    then have "deviceMap (startOwnershipMonitoring (monitorTick da i) i cs) =
        deviceMap (monitorTick da i)"
      using Cons.IH Cons.prems(2) by blast
    then show ?thesis using TimeAfter Cons.prems
      by (simp add: monitorTick_owned renewBranch_deviceMap)
  qed (use Cons.prems in \<open>simp_all add: monitorTick_owned renewBranch_deviceMap\<close>)
qed

lemma monitorTick_not_owned:
  assumes "deviceMap da i = Some val" and "\<not> owned val"
  shows "deviceMap (monitorTick da i) =
    (deviceMap da)(i \<mapsto> val\<lparr>owned := fst (tryToReserveKey da i)\<rparr>)"
proof -
  obtain r da1 where t: "tryToReserveKey da i = (r, da1)"
    by (cases "tryToReserveKey da i")
  have m: "deviceMap da1 = deviceMap da"
    using tryToReserveKey_deviceMap [of da i] t by simp
  show ?thesis
    using assms t m by (simp add: monitorTick_def retryBranch_def setOwnership_def)
qed

lemma replicaAOwning_entry:
  "deviceMap replicaAOwning ''x'' = Some \<lparr>id' = ''x'', owned = True, chnl = 0\<rparr>"
  by (simp add: replicaAOwning_def replicaA_def NewDeviceOwnership_def getOwnership_def
      tryToReserveKey_def kvKey_def leaseStore_def Let_def)

lemma replicaAAfterHandoff_entry:
  "deviceMap replicaAAfterHandoff ''x'' = Some \<lparr>id' = ''x'', owned = True, chnl = 0\<rparr>"
  by (simp add: replicaAAfterHandoff_def replicaAOwning_entry)

text \<open>
  C1 as stated fails (scenario S2 of the spec): replica \<open>A\<close> asks for \<open>x\<close> and owns it;
  its lease lapses and replica \<open>B\<close> holds the key; at \<open>A\<close>'s next tick the renewal
  fails, and the entry of \<open>x\<close> still has owned = true.
\<close>

theorem lease_handoff_still_owned:
  "fst (getOwnership replicaA ''x'') \<and>
   kvState replicaAAfterHandoff (kvKey replicaAAfterHandoff ''x'') = Some (StringValue ''B'') \<and>
   fst (RenewReservation (kvClient replicaAAfterHandoff) (kvState replicaAAfterHandoff)
         (kvKey replicaAAfterHandoff ''x'')) = Some (Plain ''not-reserved'') \<and>
   map_option owned (deviceMap (monitorTick replicaAAfterHandoff ''x'') ''x'') = Some True"
proof (intro conjI)
  show "fst (getOwnership replicaA ''x'')"
    by (simp add: replicaA_def NewDeviceOwnership_def getOwnership_def tryToReserveKey_def
        kvKey_def leaseStore_def Let_def)
  show "kvState replicaAAfterHandoff (kvKey replicaAAfterHandoff ''x'') = Some (StringValue ''B'')"
    by (simp add: replicaAAfterHandoff_def kvKey_def replicaAOwning_def replicaA_def
        NewDeviceOwnership_def getOwnership_def tryToReserveKey_def leaseStore_def Let_def)
  show "fst (RenewReservation (kvClient replicaAAfterHandoff) (kvState replicaAAfterHandoff)
         (kvKey replicaAAfterHandoff ''x'')) = Some (Plain ''not-reserved'')"
    by (simp add: replicaAAfterHandoff_def kvKey_def replicaAOwning_def replicaA_def
        NewDeviceOwnership_def getOwnership_def tryToReserveKey_def leaseStore_def Let_def)
  show "map_option owned (deviceMap (monitorTick replicaAAfterHandoff ''x'') ''x'') = Some True"
    using replicaAAfterHandoff_entry by (simp add: monitorTick_def renewBranch_deviceMap)
qed

text \<open>
  C1, amended. A monitor tick that finds the entry of a device id with owned = true makes
  one renewal call and leaves every entry as it is, whatever the store holds under the
  key and whether or not the renewal fails; so does any run of the monitor loop from
  such a state. A tick writes the flag only when it finds the entry with owned = false,
  and then to the outcome of a new reservation. Hence a renewal failure does not flip
  owned, no tick that finds owned = true sets it to false, and after another replica has
  claimed the lease the next tick still observes owned = true.
\<close>

theorem monitor_never_demotes:
  "(deviceMap da i = Some val \<and> owned val \<longrightarrow>
      deviceMap (monitorTick da i) = deviceMap da \<and>
      kvCalls (monitorTick da i) = kvCalls da @ [RenewCall (kvKey da i)] \<and>
      deviceMap (startOwnershipMonitoring da i cs) = deviceMap da) \<and>
   (deviceMap da i = Some val \<and> \<not> owned val \<longrightarrow>
      deviceMap (monitorTick da i) =
        (deviceMap da)(i \<mapsto> val\<lparr>owned := holdsLease da i\<rparr>))"
  by (simp add: monitorTick_owned renewBranch_deviceMap renewBranch_kvCalls monitoring_owned
      monitorTick_not_owned tryToReserveKey_result)

lemma replicaAWaiting_entry:
  "deviceMap replicaAWaiting ''x'' = Some \<lparr>id' = ''x'', owned = False, chnl = 0\<rparr>"
  by (simp add: replicaAWaiting_def replicaA_def NewDeviceOwnership_def getOwnership_def
      tryToReserveKey_def kvKey_def leaseStore_def Let_def)

lemma replicaAWaiting_holdsLease:
  "\<not> holdsLease replicaAWaiting ''x''" "holdsLease (replicaAWaiting\<lparr>kvState := Map.empty\<rparr>) ''x''"
  by (simp_all add: holdsLease_def reserveReply_def replicaAWaiting_def replicaA_def
      NewDeviceOwnership_def getOwnership_def tryToReserveKey_def kvKey_def leaseStore_def Let_def)

text \<open>
  Replica \<open>A\<close> after the handoff, for one tick and for three passes of the loop; and
  replica \<open>A\<close> waiting for \<open>x\<close>: a tick while \<open>B\<close> holds the key leaves owned = false,
  a tick after the key has gone sets owned = true.
\<close>

theorem monitor_never_demotes_witness:
  "deviceMap replicaAAfterHandoff ''x'' = Some \<lparr>id' = ''x'', owned = True, chnl = 0\<rparr> \<and>
   deviceMap (monitorTick replicaAAfterHandoff ''x'') = deviceMap replicaAAfterHandoff \<and>
   deviceMap (startOwnershipMonitoring replicaAAfterHandoff ''x'' [TimeAfter, TimeAfter, Chnl])
     = deviceMap replicaAAfterHandoff \<and>
   deviceMap replicaAWaiting ''x'' = Some \<lparr>id' = ''x'', owned = False, chnl = 0\<rparr> \<and>
   deviceMap (monitorTick replicaAWaiting ''x'') ''x'' =
     Some \<lparr>id' = ''x'', owned = False, chnl = 0\<rparr> \<and>
   deviceMap (monitorTick (replicaAWaiting\<lparr>kvState := Map.empty\<rparr>) ''x'') ''x'' =
     Some \<lparr>id' = ''x'', owned = True, chnl = 0\<rparr>"
  using monitor_never_demotes [of replicaAAfterHandoff "''x''"
      "\<lparr>id' = ''x'', owned = True, chnl = 0\<rparr>" "[TimeAfter, TimeAfter, Chnl]"]
    monitor_never_demotes [of replicaAWaiting "''x''"
      "\<lparr>id' = ''x'', owned = False, chnl = 0\<rparr>" "[]"]
    monitor_never_demotes [of "replicaAWaiting\<lparr>kvState := Map.empty\<rparr>" "''x''"
      "\<lparr>id' = ''x'', owned = False, chnl = 0\<rparr>" "[]"]
    replicaAAfterHandoff_entry replicaAWaiting_entry replicaAWaiting_holdsLease
  by simp

section \<open>Properties of the adapter registry\<close>

subsection \<open>Sentinels\<close>

lemma loadedRegistry_eq:
  "adapterAgents loadedRegistry =
     [(''a1'', freshAgent),
      (SentinelAdapterID, newAdapterAgent (adapterWithId SentinelAdapterID)
         (Some [deviceTypeWith SentinelDevicetypeID SentinelAdapterID]))] \<and>
   deviceTypeToAdapterMap loadedRegistry = [(SentinelDevicetypeID, SentinelAdapterID)]"
  by (simp add: loadedRegistry_def loadAdaptersAndDevicetypesInMemory_def newAdapterManager_def
      storeWithOneAdapter_def proxyListAdapters_def proxyListDeviceTypes_def addAdapter_def
      addDeviceTypes_def proxyGetDeviceType_def proxyAddDeviceType_def mapPut_def
      adapterWithId_def deviceTypeWith_def SentinelAdapterID_def SentinelDevicetypeID_def
      freshAgent_def)

lemma registryWithType_eq:
  "adapterAgents registryWithType =
     [(''a1'', updateDeviceType freshAgent (deviceTypeWith ''dt1'' ''a1'')),
      (SentinelAdapterID, newAdapterAgent (adapterWithId SentinelAdapterID)
         (Some [deviceTypeWith SentinelDevicetypeID SentinelAdapterID]))] \<and>
   deviceTypeToAdapterMap registryWithType =
     [(SentinelDevicetypeID, SentinelAdapterID), (''dt1'', ''a1'')]"
  using loadedRegistry_eq
  by (simp add: registryWithType_def addDeviceTypes_def mapPut_def deviceTypeWith_def
      SentinelAdapterID_def SentinelDevicetypeID_def)

text \<open>
  C3 as stated fails: loading a registry from a store that holds an adapter and no device
  type succeeds and records the sentinel device type under the sentinel adapter, and
  \<^verbatim>\<open>getAdapterName\<close> returns the sentinel adapter id for that device type.
\<close>

theorem getAdapterName_returns_sentinel:
  "fst (loadAdaptersAndDevicetypesInMemory (newAdapterManager storeWithOneAdapter ''core1'')) = None \<and>
   getAdapterName loadedRegistry SentinelDevicetypeID = Inr SentinelAdapterID"
proof (rule conjI)
  show "fst (loadAdaptersAndDevicetypesInMemory (newAdapterManager storeWithOneAdapter ''core1'')) = None"
    by (simp add: loadAdaptersAndDevicetypesInMemory_def newAdapterManager_def
        storeWithOneAdapter_def proxyListAdapters_def proxyListDeviceTypes_def addAdapter_def
        addDeviceTypes_def proxyGetDeviceType_def proxyAddDeviceType_def mapPut_def
        adapterWithId_def deviceTypeWith_def SentinelAdapterID_def SentinelDevicetypeID_def)
  show "getAdapterName loadedRegistry SentinelDevicetypeID = Inr SentinelAdapterID"
    using loadedRegistry_eq by (simp add: getAdapterName_def)
qed

text \<open>
  C3, amended. In every state of the adapter registry, no adapter that \<^verbatim>\<open>listAdapters\<close>
  returns has the sentinel adapter id and no device type that \<^verbatim>\<open>listDeviceTypes\<close>
  returns has the sentinel device-type id. \<^verbatim>\<open>getAdapterName\<close> filters nothing: it
  returns the sentinel adapter id for a device type exactly when the map from device
  types to adapters holds it for that type.
\<close>

theorem listings_filter_sentinels:
  "(\<forall>a \<in> set (listAdapters aMgr). aId a \<noteq> SentinelAdapterID) \<and>
   (\<forall>d \<in> set (listDeviceTypes aMgr). dtId d \<noteq> SentinelDevicetypeID) \<and>
   (getAdapterName aMgr dType = Inr SentinelAdapterID \<longleftrightarrow>
      map_of (deviceTypeToAdapterMap aMgr) dType = Some SentinelAdapterID)"
  by (auto simp add: listAdapters_def listDeviceTypes_def getAdapterName_def Let_def
      split: option.splits if_splits)

text \<open>
  The registry with adapter \<open>a1\<close>, device type \<open>dt1\<close> and both sentinels: the listings
  hold \<open>a1\<close> and \<open>dt1\<close> only, and the map holds the sentinel adapter id for the sentinel
  device type.
\<close>

theorem listings_filter_sentinels_witness:
  "map_of (adapterAgents registryWithType) SentinelAdapterID \<noteq> None \<and>
   listAdapters registryWithType = [adapterWithId ''a1''] \<and>
   aId (adapterWithId ''a1'') \<noteq> SentinelAdapterID \<and>
   listDeviceTypes registryWithType = [deviceTypeWith ''dt1'' ''a1''] \<and>
   dtId (deviceTypeWith ''dt1'' ''a1'') \<noteq> SentinelDevicetypeID \<and>
   map_of (deviceTypeToAdapterMap registryWithType) SentinelDevicetypeID = Some SentinelAdapterID \<and>
   getAdapterName registryWithType SentinelDevicetypeID = Inr SentinelAdapterID"
proof -
  have l: "listAdapters registryWithType = [adapterWithId ''a1'']"
    using registryWithType_eq
    by (simp add: listAdapters_def getAdapter_aa_def newAdapterAgent_def updateDeviceType_def
        freshAgent_def adapterWithId_def SentinelAdapterID_def)
  have t: "listDeviceTypes registryWithType = [deviceTypeWith ''dt1'' ''a1'']"
    using registryWithType_eq
    by (simp add: listDeviceTypes_def getDeviceType_aa_def newAdapterAgent_def
        updateDeviceType_def freshAgent_def adapterWithId_def deviceTypeWith_def
        SentinelAdapterID_def SentinelDevicetypeID_def)
  have m: "map_of (adapterAgents registryWithType) SentinelAdapterID \<noteq> None"
    "map_of (deviceTypeToAdapterMap registryWithType) SentinelDevicetypeID = Some SentinelAdapterID"
    using registryWithType_eq by (simp_all add: SentinelAdapterID_def SentinelDevicetypeID_def)
  show ?thesis
    using listings_filter_sentinels [of registryWithType SentinelDevicetypeID] l t m
    by simp
qed

subsection \<open>Last communication\<close>

lemma nanos_range: "\<not> (t::int) mod 1000000000 < 0 \<and> \<not> 1000000000 \<le> t mod 1000000000"
proof -
  have "0 \<le> t mod 1000000000" by (rule pos_mod_sign) simp
  moreover have "t mod 1000000000 < 1000000000" by (rule pos_mod_bound) simp
  ultimately show ?thesis by linarith
qed

lemma ptypesTimestampProto_eq:
  "ptypesTimestampProto t = (if encodable t then Inr (encoded t) else
      Inl (if t div 1000000000 < minValidSeconds then Plain ''timestamp: before 0001-01-01''
           else Plain ''timestamp: after 10000-01-01''))"
  using nanos_range [of t]
  by (simp add: ptypesTimestampProto_def validateTimestamp_def encodable_def encoded_def Let_def)

lemma timeUnix_encoded: "timeUnix (Seconds (encoded t)) (Nanos (encoded t)) = t"
  by (simp add: timeUnix_def encoded_def)

lemma validate_encoded: "encodable t \<Longrightarrow> validateTimestamp (Some (encoded t)) = None"
  using nanos_range [of t]
  by (simp add: validateTimestamp_def encodable_def encoded_def)

lemma storedTime_written:
  "encodable t \<Longrightarrow>
   storedTime (aa\<lparr>adapter := (adapter aa)\<lparr>aLastCommunication := Some (encoded t)\<rparr>\<rparr>) = Some t"
  using timeUnix_encoded [of t] validate_encoded [of t]
  by (simp add: storedTime_def ptypesTimestamp_def)

lemma updateCommunicationTime_eq:
  "updateCommunicationTime aa new now =
     (if accepted aa new now \<and> encodable new
      then aa\<lparr>adapter := (adapter aa)\<lparr>aLastCommunication := Some (encoded new)\<rparr>\<rparr>
      else aa)"
  by (auto simp add: updateCommunicationTime_def accepted_def storedTime_def
      ptypesTimestampProto_eq ptypesTimestamp_def split: prod.splits option.splits)

lemma written_differs:
  assumes "accepted aa new now" and "encodable new"
  shows "aa\<lparr>adapter := (adapter aa)\<lparr>aLastCommunication := Some (encoded new)\<rparr>\<rparr> \<noteq> aa"
proof
  assume e: "aa\<lparr>adapter := (adapter aa)\<lparr>aLastCommunication := Some (encoded new)\<rparr>\<rparr> = aa"
  have "storedTime (aa\<lparr>adapter := (adapter aa)\<lparr>aLastCommunication := Some (encoded new)\<rparr>\<rparr>) =
      Some new"
    using assms(2) by (rule storedTime_written)
  with e have "storedTime aa = Some new" by simp
  with assms(1) show False by (simp add: accepted_def)
qed

lemma map_of_mapPut: "map_of (mapPut k v m) k = Some v"
proof (cases "map_of m k")
  case None
  then show ?thesis by (simp add: mapPut_def map_add_def)
next
  case (Some u)
  have "map_of m k = Some u \<Longrightarrow>
      map_of (map (\<lambda>(k', v'). if k' = k then (k', v) else (k', v')) m) k = Some v"
    by (induction m) (auto split: if_splits)
  with Some show ?thesis by (simp add: mapPut_def)
qed

lemma freshAgent_stored: "aLastCommunication (adapter freshAgent) = None"
  by (simp add: freshAgent_def newAdapterAgent_def adapterWithId_def)

lemma loadedRegistry_a1: "map_of (adapterAgents loadedRegistry) ''a1'' = Some freshAgent"
  using loadedRegistry_eq by simp

lemma whole_seconds:
  "timestamp smod 1000 = 0 \<Longrightarrow>
   timeUnix (timestamp sdiv 1000) (timestamp smod 1000 * 1000) = deliveredTime timestamp"
  using sdiv_mult_smod_eq [of timestamp 1000]
  by (simp add: timeUnix_def deliveredTime_def)

lemma updateCommunicationTime_monotone:
  "storedTime aa = Some old \<Longrightarrow>
   \<exists>t. storedTime (updateCommunicationTime aa new now) = Some t \<and> old \<le> t"
  using storedTime_written [of new aa]
  by (auto simp add: updateCommunicationTime_eq accepted_def)

lemma updateCommunicationTime_not_future:
  "updateCommunicationTime aa new now \<noteq> aa \<Longrightarrow>
   storedTime (updateCommunicationTime aa new now) = Some new \<and> new \<le> now"
  using storedTime_written [of new aa]
  by (auto simp add: updateCommunicationTime_eq accepted_def split: if_splits)

lemma freshAgent_storedTime: "storedTime freshAgent = None"
  by (simp add: storedTime_def freshAgent_stored ptypesTimestamp_def validateTimestamp_def)

lemma registry_after_5999:
  "map_option storedTime
     (map_of (adapterAgents (updateLastAdapterCommunication loadedRegistry ''a1'' 5999 now)) ''a1'') =
   Some (storedTime (updateCommunicationTime freshAgent 5000999000 now))"
  using loadedRegistry_a1
  by (simp add: updateLastAdapterCommunication_def map_of_mapPut timeUnix_def
      signed_divide_int_def signed_modulo_int_def)

lemma time_5000999000:
  "5000999000 \<le> now \<Longrightarrow>
   storedTime (updateCommunicationTime freshAgent 5000999000 now) = Some 5000999000"
  using storedTime_written [of 5000999000 freshAgent]
  by (simp add: updateCommunicationTime_eq accepted_def freshAgent_storedTime encodable_def
      minValidSeconds_def maxValidSeconds_def)

text \<open>
  C6 as stated fails, in two ways. The adapter has no stored time and the bus delivers a
  time that is not in the future but lies before year 1: it cannot be encoded as a
  timestamp and the record is left as it is. And \<^verbatim>\<open>updateLastAdapterCommunication\<close>
  hands the milliseconds within the second to \<^verbatim>\<open>time.Unix\<close> multiplied by 1000, as
  nanoseconds: at now = 5.5 s the bus delivers 5999 ms, a time in the future, and the
  record is updated, to 5.000999 s.
\<close>

theorem unencodable_time_is_ignored:
  "map_of (adapterAgents loadedRegistry) ''a1'' = Some freshAgent \<and>
   aLastCommunication (adapter freshAgent) = None \<and>
   deliveredTime (- 100000000000000000) \<le> 0 \<and>
   updateCommunicationTime freshAgent (deliveredTime (- 100000000000000000)) 0 = freshAgent \<and>
   updateLastAdapterCommunication loadedRegistry ''a1'' (- 100000000000000000) 0 = loadedRegistry \<and>
   5500000000 < deliveredTime 5999 \<and>
   map_option storedTime
     (map_of (adapterAgents (updateLastAdapterCommunication loadedRegistry ''a1'' 5999 5500000000))
        ''a1'') = Some (Some 5000999000)"
proof -
  have t: "deliveredTime (- 100000000000000000) = - 100000000000000000000000"
    "timeUnix (- 100000000000000000 sdiv 1000) (- 100000000000000000 smod 1000 * 1000) =
       - 100000000000000000000000"
    by (simp_all add: deliveredTime_def timeUnix_def signed_divide_int_def signed_modulo_int_def)
  have u: "updateCommunicationTime freshAgent (- 100000000000000000000000) 0 = freshAgent"
    by (simp add: updateCommunicationTime_def freshAgent_stored ptypesTimestamp_def
        ptypesTimestampProto_def validateTimestamp_def timeUnix_def minValidSeconds_def)
  have p: "mapPut ''a1'' freshAgent (adapterAgents loadedRegistry) = adapterAgents loadedRegistry"
    using loadedRegistry_eq by (simp add: mapPut_def SentinelAdapterID_def)
  have m: "updateLastAdapterCommunication loadedRegistry ''a1'' (- 100000000000000000) 0 =
      loadedRegistry"
    using loadedRegistry_a1 t u p by (simp add: updateLastAdapterCommunication_def)
  have d: "5500000000 < deliveredTime 5999"
    by (simp add: deliveredTime_def)
  have s: "map_option storedTime
     (map_of (adapterAgents (updateLastAdapterCommunication loadedRegistry ''a1'' 5999 5500000000))
        ''a1'') = Some (Some 5000999000)"
    using registry_after_5999 [of 5500000000] time_5000999000 [of 5500000000] by simp
  show ?thesis using loadedRegistry_a1 freshAgent_stored t u m d s by simp
qed

text \<open>
  C6, amended. For every adapter record, \<^verbatim>\<open>updateCommunicationTime\<close> writes the stored
  last-communication timestamp iff the new time it is given is not in the future, is
  strictly after the stored value (or the stored value is absent or invalid), and can be
  encoded as a timestamp (its seconds lie between year 1 and year 10000); otherwise the
  record is left as it is. \<^verbatim>\<open>updateLastAdapterCommunication\<close> does this to the agent of
  the adapter id with the time the bus delivered, when that time is a whole number of
  seconds; of a delivered time that is not, the claim says nothing. For every delivered
  time, a valid stored time never decreases and a stored time that is written is never
  past now.
\<close>

theorem updateCommunicationTime_accepts:
  "(accepted aa new now \<and> encodable new \<longrightarrow>
      updateCommunicationTime aa new now \<noteq> aa \<and>
      aLastCommunication (adapter (updateCommunicationTime aa new now)) = Some (encoded new) \<and>
      storedTime (updateCommunicationTime aa new now) = Some new) \<and>
   (\<not> (accepted aa new now \<and> encodable new) \<longrightarrow> updateCommunicationTime aa new now = aa) \<and>
   (storedTime aa = Some old \<longrightarrow>
      (\<exists>t. storedTime (updateCommunicationTime aa new now) = Some t \<and> old \<le> t)) \<and>
   (updateCommunicationTime aa new now \<noteq> aa \<longrightarrow>
      storedTime (updateCommunicationTime aa new now) = Some new \<and> new \<le> now) \<and>
   (map_of (adapterAgents aMgr) adapterID = Some aa \<and> timestamp smod 1000 = 0 \<longrightarrow>
      map_of (adapterAgents (updateLastAdapterCommunication aMgr adapterID timestamp now)) adapterID =
        Some (updateCommunicationTime aa (deliveredTime timestamp) now)) \<and>
   (map_of (adapterAgents aMgr) adapterID = Some aa \<longrightarrow>
      (\<exists>aa'. map_of (adapterAgents (updateLastAdapterCommunication aMgr adapterID timestamp now))
                adapterID = Some aa' \<and>
             (storedTime aa = Some old \<longrightarrow> (\<exists>t. storedTime aa' = Some t \<and> old \<le> t)) \<and>
             (aa' \<noteq> aa \<longrightarrow> (\<exists>t. storedTime aa' = Some t \<and> t \<le> now))))"
proof -
  have 1: "accepted aa new now \<and> encodable new \<longrightarrow>
      updateCommunicationTime aa new now \<noteq> aa \<and>
      aLastCommunication (adapter (updateCommunicationTime aa new now)) = Some (encoded new) \<and>
      storedTime (updateCommunicationTime aa new now) = Some new"
    using written_differs [of aa new now] storedTime_written [of new aa]
    by (simp add: updateCommunicationTime_eq)
  have 2: "\<not> (accepted aa new now \<and> encodable new) \<longrightarrow> updateCommunicationTime aa new now = aa"
    by (simp add: updateCommunicationTime_eq)
  have 3: "storedTime aa = Some old \<longrightarrow>
      (\<exists>t. storedTime (updateCommunicationTime aa new now) = Some t \<and> old \<le> t)"
    using updateCommunicationTime_monotone [of aa old new now] by blast
  have 4: "updateCommunicationTime aa new now \<noteq> aa \<longrightarrow>
      storedTime (updateCommunicationTime aa new now) = Some new \<and> new \<le> now"
    using updateCommunicationTime_not_future [of aa new now] by blast
  have 5: "map_of (adapterAgents aMgr) adapterID = Some aa \<and> timestamp smod 1000 = 0 \<longrightarrow>
      map_of (adapterAgents (updateLastAdapterCommunication aMgr adapterID timestamp now)) adapterID =
        Some (updateCommunicationTime aa (deliveredTime timestamp) now)"
    using whole_seconds [of timestamp]
    by (simp add: updateLastAdapterCommunication_def map_of_mapPut)
  have 6: "map_of (adapterAgents aMgr) adapterID = Some aa \<longrightarrow>
      (\<exists>aa'. map_of (adapterAgents (updateLastAdapterCommunication aMgr adapterID timestamp now))
                adapterID = Some aa' \<and>
             (storedTime aa = Some old \<longrightarrow> (\<exists>t. storedTime aa' = Some t \<and> old \<le> t)) \<and>
             (aa' \<noteq> aa \<longrightarrow> (\<exists>t. storedTime aa' = Some t \<and> t \<le> now)))"
  proof
    assume a: "map_of (adapterAgents aMgr) adapterID = Some aa"
    let ?t = "timeUnix (timestamp sdiv 1000) (timestamp smod 1000 * 1000)"
    have m: "map_of (adapterAgents (updateLastAdapterCommunication aMgr adapterID timestamp now))
        adapterID = Some (updateCommunicationTime aa ?t now)"
      using a by (simp add: updateLastAdapterCommunication_def map_of_mapPut)
    have "storedTime aa = Some old \<longrightarrow>
        (\<exists>t. storedTime (updateCommunicationTime aa ?t now) = Some t \<and> old \<le> t)"
      using updateCommunicationTime_monotone [of aa old ?t now] by blast
    moreover have "updateCommunicationTime aa ?t now \<noteq> aa \<longrightarrow>
        (\<exists>t. storedTime (updateCommunicationTime aa ?t now) = Some t \<and> t \<le> now)"
      using updateCommunicationTime_not_future [of aa ?t now] by blast
    ultimately show "\<exists>aa'. map_of (adapterAgents
          (updateLastAdapterCommunication aMgr adapterID timestamp now)) adapterID = Some aa' \<and>
        (storedTime aa = Some old \<longrightarrow> (\<exists>t. storedTime aa' = Some t \<and> old \<le> t)) \<and>
        (aa' \<noteq> aa \<longrightarrow> (\<exists>t. storedTime aa' = Some t \<and> t \<le> now))"
      using m by blast
  qed
  show ?thesis using 1 2 3 4 5 6 by blast
qed

text \<open>
  Adapter \<open>a1\<close> with no stored time, at now = 10 s: the bus delivers 5000 ms and the
  stored time becomes 5 s; then 3000 ms is older and 20000 ms is in the future, and
  both leave the record as it is. A delivery of 5999 ms, which is no whole number of
  seconds, stores a time that is not past now either.
\<close>

theorem updateCommunicationTime_accepts_witness:
  "accepted freshAgent 5000000000 10000000000 \<and> encodable 5000000000 \<and>
   updateCommunicationTime freshAgent 5000000000 10000000000 \<noteq> freshAgent \<and>
   storedTime (updateCommunicationTime freshAgent 5000000000 10000000000) = Some 5000000000 \<and>
   \<not> accepted (updateCommunicationTime freshAgent 5000000000 10000000000) 3000000000 10000000000 \<and>
   updateCommunicationTime (updateCommunicationTime freshAgent 5000000000 10000000000)
     3000000000 10000000000 = updateCommunicationTime freshAgent 5000000000 10000000000 \<and>
   updateCommunicationTime freshAgent 20000000000 10000000000 = freshAgent \<and>
   map_of (adapterAgents loadedRegistry) ''a1'' = Some freshAgent \<and>
   (5000::int) smod 1000 = 0 \<and> deliveredTime 5000 = 5000000000 \<and>
   map_option storedTime
     (map_of (adapterAgents (updateLastAdapterCommunication loadedRegistry ''a1'' 5000 10000000000))
        ''a1'') = Some (Some 5000000000) \<and>
   map_option storedTime
     (map_of (adapterAgents (updateLastAdapterCommunication loadedRegistry ''a1'' 5999 10000000000))
        ''a1'') = Some (Some 5000999000) \<and>
   (5000999000::int) \<le> 10000000000"
proof -
  have a: "accepted freshAgent 5000000000 10000000000" "\<not> accepted freshAgent 20000000000 10000000000"
    by (simp_all add: accepted_def freshAgent_storedTime)
  have e: "encodable 5000000000"
    by (simp add: encodable_def minValidSeconds_def maxValidSeconds_def)
  have b: "(5000::int) smod 1000 = 0" "deliveredTime 5000 = 5000000000"
    by (simp_all add: deliveredTime_def signed_modulo_int_def)
  note first = updateCommunicationTime_accepts [of freshAgent 5000000000 10000000000 0
      loadedRegistry "''a1''" 5000]
  have w: "storedTime (updateCommunicationTime freshAgent 5000000000 10000000000) = Some 5000000000"
    using first a e by simp
  then have n: "\<not> accepted (updateCommunicationTime freshAgent 5000000000 10000000000)
      3000000000 10000000000"
    by (simp add: accepted_def)
  have s: "map_option storedTime
     (map_of (adapterAgents (updateLastAdapterCommunication loadedRegistry ''a1'' 5999 10000000000))
        ''a1'') = Some (Some 5000999000)"
    using registry_after_5999 [of 10000000000] time_5000999000 [of 10000000000] by simp
  show ?thesis
    using first
      updateCommunicationTime_accepts [of "updateCommunicationTime freshAgent 5000000000 10000000000"
        3000000000 10000000000 5000000000 loadedRegistry "''a1''" 5000]
      updateCommunicationTime_accepts [of freshAgent 20000000000 10000000000 0
        loadedRegistry "''a1''" 5999]
      a e b w n s loadedRegistry_a1
    by simp
qed

section \<open>Properties of the device manager\<close>

subsection \<open>The agent table\<close>

lemma addDeviceAgentToMap_other:
  "deviceAgents dMgr i = Some first \<Longrightarrow>
   deviceAgents (addDeviceAgentToMap dMgr agent) i = Some first"
  by (auto simp add: addDeviceAgentToMap_def)

lemma addDeviceAgentToMap_fold:
  "deviceAgents dMgr i = Some first \<Longrightarrow>
   deviceAgents (fold (\<lambda>a m. addDeviceAgentToMap m a) agents dMgr) i = Some first"
  by (induction agents arbitrary: dMgr) (simp_all add: addDeviceAgentToMap_other)

lemma GetDevice_resident:
  "deviceAgents dMgr i = Some agent \<Longrightarrow>
   GetDevice (Suc n) dMgr i = Some (Inr (lastData agent), dMgr)"
  by (simp add: GetDevice_def agentGetDevice_def)

lemma oltManager_agents: "deviceAgents oltManager = [''d1'' \<mapsto> newDeviceAgent oltDevice]"
  by (simp add: oltManager_def createDevice_def emptyManager_def oltDevice_def deviceWithId_def
      newDeviceAgent_def addDeviceAgentToMap_def agentStart_def Let_def)

text \<open>
  C9. Adding a device agent to the table is insert-if-absent: when the agent's device id
  is already mapped to an agent, \<^verbatim>\<open>addDeviceAgentToMap\<close> leaves the manager unchanged;
  after any further additions the id is still mapped to that first agent, and
  \<^verbatim>\<open>getDeviceAgent\<close> serves the id with it (for every bound on the call depth but 0,
  and without changing the manager).
\<close>

theorem addDeviceAgentToMap_insert_if_absent:
  "deviceAgents dMgr (deviceId agent) = Some first \<longrightarrow>
     addDeviceAgentToMap dMgr agent = dMgr \<and>
     deviceAgents (fold (\<lambda>a m. addDeviceAgentToMap m a) agents dMgr) (deviceId agent) =
       Some first \<and>
     getDeviceAgent (Suc n) (fold (\<lambda>a m. addDeviceAgentToMap m a) agents dMgr) (deviceId agent) =
       Some (Some first, fold (\<lambda>a m. addDeviceAgentToMap m a) agents dMgr)"
  using addDeviceAgentToMap_fold [of dMgr "deviceId agent" first agents]
  by (simp add: addDeviceAgentToMap_def)

text \<open>
  The manager holds the agent of the olt device under \<open>d1\<close>; adding the agent of another
  device with the id \<open>d1\<close>, once or twice, changes nothing.
\<close>

theorem addDeviceAgentToMap_insert_if_absent_witness:
  "deviceAgents oltManager (deviceId (newDeviceAgent onuDevice)) = Some (newDeviceAgent oltDevice) \<and>
   newDeviceAgent onuDevice \<noteq> newDeviceAgent oltDevice \<and>
   addDeviceAgentToMap oltManager (newDeviceAgent onuDevice) = oltManager \<and>
   getDeviceAgent 1 (addDeviceAgentToMap (addDeviceAgentToMap oltManager (newDeviceAgent onuDevice))
       (newDeviceAgent onuDevice)) ''d1'' = Some (Some (newDeviceAgent oltDevice), oltManager)"
proof -
  have i: "deviceId (newDeviceAgent onuDevice) = ''d1''"
    by (simp add: newDeviceAgent_def onuDevice_def deviceWithId_def)
  have r: "deviceAgents oltManager (deviceId (newDeviceAgent onuDevice)) =
      Some (newDeviceAgent oltDevice)"
    by (simp add: i oltManager_agents)
  have d: "newDeviceAgent onuDevice \<noteq> newDeviceAgent oltDevice"
    by (simp add: newDeviceAgent_def onuDevice_def oltDevice_def deviceWithId_def)
  have s: "addDeviceAgentToMap oltManager (newDeviceAgent onuDevice) = oltManager"
    using addDeviceAgentToMap_insert_if_absent [of oltManager "newDeviceAgent onuDevice"
        "newDeviceAgent oltDevice" "[]" 0] r
    by simp
  show ?thesis
    using addDeviceAgentToMap_insert_if_absent [of oltManager "newDeviceAgent onuDevice"
        "newDeviceAgent oltDevice" "[newDeviceAgent onuDevice, newDeviceAgent onuDevice]" 0]
      r d s i
    by simp
qed

subsection \<open>Creating a device\<close>

text \<open>
  C5 as stated fails: the manager holds an agent for \<open>d1\<close>, an olt; creating a device
  with the id \<open>d1\<close> and the type onu does not replace the agent, and getting \<open>d1\<close>
  returns the olt record.
\<close>

theorem createDevice_resident_id_keeps_old_record:
  "deviceAgents oltManager (Id onuDevice) = Some (newDeviceAgent oltDevice) \<and>
   map_option fst (GetDevice 1 (snd (createDevice oltManager onuDevice)) (Id onuDevice)) =
     Some (Inr oltDevice) \<and>
   Type oltDevice \<noteq> Type onuDevice"
proof -
  have "deviceAgents (snd (createDevice oltManager onuDevice)) = [''d1'' \<mapsto> newDeviceAgent oltDevice]"
    using oltManager_agents
    by (simp add: createDevice_def Let_def addDeviceAgentToMap_def newDeviceAgent_def
        agentStart_def onuDevice_def deviceWithId_def split: prod.splits)
  then have "deviceAgents (snd (createDevice oltManager onuDevice)) (Id onuDevice) =
      Some (newDeviceAgent oltDevice)"
    by (simp add: onuDevice_def deviceWithId_def)
  then show ?thesis
    using GetDevice_resident [of "snd (createDevice oltManager onuDevice)" "Id onuDevice"
        "newDeviceAgent oltDevice" 0] oltManager_agents
    by (simp add: newDeviceAgent_def oltDevice_def onuDevice_def deviceWithId_def)
qed

text \<open>
  C5, amended. For every device \<open>d\<close> whose id has no agent in the table,
  \<^verbatim>\<open>createDevice\<close> returns \<open>d\<close> with root = true, and \<^verbatim>\<open>GetDevice\<close> of \<open>d\<close>'s id then
  returns that record: its id, type and proxy address (and every other field) equal
  \<open>d\<close>'s and its root is true, the value that \<^verbatim>\<open>createDevice\<close> has stamped on \<open>d\<close>.
\<close>

theorem createDevice_then_GetDevice:
  "deviceAgents dMgr (Id d) = None \<longrightarrow>
     fst (createDevice dMgr d) = d\<lparr>Root := True\<rparr> \<and>
     GetDevice (Suc n) (snd (createDevice dMgr d)) (Id d) =
       Some (Inr (d\<lparr>Root := True\<rparr>), snd (createDevice dMgr d))"
proof -
  have "deviceAgents (snd (createDevice dMgr d)) (Id d) = Some (newDeviceAgent (d\<lparr>Root := True\<rparr>))"
    if "deviceAgents dMgr (Id d) = None"
    using that
    by (simp add: createDevice_def Let_def addDeviceAgentToMap_def newDeviceAgent_def
        agentStart_def split: prod.splits)
  moreover have "fst (createDevice dMgr d) = d\<lparr>Root := True\<rparr>"
    by (simp add: createDevice_def Let_def newDeviceAgent_def agentStart_def split: prod.splits)
  ultimately show ?thesis
    using GetDevice_resident [of "snd (createDevice dMgr d)" "Id d"
        "newDeviceAgent (d\<lparr>Root := True\<rparr>)" n]
    by (simp add: newDeviceAgent_def)
qed

text \<open>The olt device created in the empty manager, then fetched.\<close>

theorem createDevice_then_GetDevice_witness:
  "deviceAgents emptyManager (Id oltDevice) = None \<and>
   fst (createDevice emptyManager oltDevice) = oltDevice \<and>
   GetDevice 1 oltManager ''d1'' = Some (Inr oltDevice, oltManager)"
  using createDevice_then_GetDevice [of emptyManager oltDevice 0]
  by (simp add: emptyManager_def oltManager_def oltDevice_def deviceWithId_def)

subsection \<open>Reconciling\<close>

lemma reconcileLoop_count:
  "fst (reconcileLoop dMgr k ids) \<le> k + length ids \<and> k \<le> fst (reconcileLoop dMgr k ids)"
proof (induction ids arbitrary: dMgr k)
  case Nil
  then show ?case by simp
next
  case (Cons i ids)
  show ?case
  proof (cases "IsDeviceInCache dMgr i")
    case True
    then show ?thesis using Cons.IH [of dMgr "k + 1"] by simp
  next
    case False
    obtain e a m where st: "agentStart (newDeviceAgent (deviceWithId i)) True dMgr = (e, a, m)"
      by (cases "agentStart (newDeviceAgent (deviceWithId i)) True dMgr")
    show ?thesis
    proof (cases e)
      case None
      then show ?thesis using False st Cons.IH [of "addDeviceAgentToMap m a" "k + 1"] by simp
    next
      case (Some err)
      then show ?thesis using False st Cons.IH [of m k] by simp
    qed
  qed
qed

lemma ReconcileDevices_data_loss:
  "fst (ReconcileDevices dMgr (Some ids)) =
     (if fst (reconcileLoop dMgr 0 ids) < length ids
      then Some (Status DataLoss (''less-device-reconciled:'' @
              showNat (fst (reconcileLoop dMgr 0 ids)) @ ''/'' @ showNat (length ids)))
      else None)"
  using reconcileLoop_count [of dMgr 0 ids]
  by (auto simp add: ReconcileDevices_def Let_def split: prod.splits)

lemma ReconcileDevices_nil:
  "ReconcileDevices dMgr None = (Some (Status InvalidArgument ''empty-list-of-ids''), dMgr)"
  by (simp add: ReconcileDevices_def)

text \<open>
  C7, where the code departs from it: for a list of ids that is not nil and has no item,
  \<^verbatim>\<open>ReconcileDevices\<close> reports success (nil) and no invalid-argument error; only the
  nil pointer is answered with invalid-argument.
\<close>

theorem ReconcileDevices_empty_list_succeeds:
  "ReconcileDevices dMgr (Some []) = (None, dMgr)"
  by (simp add: ReconcileDevices_def)

subsection \<open>Transitions\<close>

lemma runHandlers_first_error:
  "runHandlers before w current = (None, w1) \<Longrightarrow> handler w1 current = (Some err, w2) \<Longrightarrow>
   runHandlers (before @ handler # rest) w current = (Some err, w2)"
proof (induction before arbitrary: w)
  case Nil
  then show ?case by simp
next
  case (Cons h hs)
  obtain e w' where h: "h w current = (e, w')" by (cases "h w current")
  with Cons.prems(1) have e: "e = None" by (cases e) simp_all
  with h Cons.prems have "runHandlers hs w' current = (None, w1)" by simp
  with Cons.IH Cons.prems(2) have "runHandlers (hs @ handler # rest) w' current = (Some err, w2)"
    by blast
  with h e show ?case by simp
qed

lemma runHandlers_all_succeed:
  "(\<forall>h \<in> set hs. \<forall>w. fst (h w current) = None) \<Longrightarrow> fst (runHandlers hs w current) = None"
proof (induction hs arbitrary: w)
  case Nil
  then show ?case by simp
next
  case (Cons h hs)
  obtain e w' where h: "h w current = (e, w')" by (cases "h w current")
  with Cons.prems have "e = None" by (metis fst_conv list.set_intros(1))
  with h Cons show ?case by simp
qed

text \<open>
  C8 as stated fails: with the handler list [\<^verbatim>\<open>notAllowed\<close>], \<^verbatim>\<open>processTransition\<close>
  returns the plain error "Transition-not-allowed", which carries no status code, so
  not failed-precondition.
\<close>

theorem not_allowed_is_plain_error:
  "fst (processTransition (\<lambda>p c. Some [notAllowed]) () oltDevice onuDevice) =
     Some (Plain ''Transition-not-allowed'') \<and>
   statusCode (Plain ''Transition-not-allowed'') \<noteq> Some FailedPrecondition"
  by (simp add: processTransition_def notAllowed_def)

text \<open>
  C8, amended. For every (previous, current) device pair: when the lookup yields no
  handlers \<^verbatim>\<open>processTransition\<close> returns success and changes nothing; it runs the
  handlers in order, each on the state the one before has left, and returns the first
  handler error with the state that the failing handler has left, whatever handlers
  follow it; when every handler succeeds it returns success; and when the handler list
  is [\<^verbatim>\<open>notAllowed\<close>] it returns the plain error "Transition-not-allowed", which carries
  no status code.
\<close>

theorem processTransition_first_error:
  "(lookup previous current = None \<longrightarrow> processTransition lookup w previous current = (None, w)) \<and>
   (lookup previous current = Some (before @ handler # rest) \<and>
    runHandlers before w current = (None, w1) \<and> handler w1 current = (Some err, w2) \<longrightarrow>
      processTransition lookup w previous current = (Some err, w2)) \<and>
   (lookup previous current = Some hs \<and> (\<forall>h \<in> set hs. \<forall>w'. fst (h w' current) = None) \<longrightarrow>
      fst (processTransition lookup w previous current) = None) \<and>
   (lookup previous current = Some [notAllowed] \<longrightarrow>
      processTransition lookup w previous current = (Some (Plain ''Transition-not-allowed''), w) \<and>
      statusCode (Plain ''Transition-not-allowed'') = None)"
  using runHandlers_first_error [of before w current w1 handler err w2 rest]
    runHandlers_all_succeed [of hs current w]
  by (simp add: processTransition_def notAllowed_def)

text \<open>
  No handlers; a counting handler, then \<^verbatim>\<open>notAllowed\<close>, then the counting handler again
  (which is not run: the count is 1); two handlers that succeed; and \<^verbatim>\<open>notAllowed\<close>
  alone.
\<close>

theorem processTransition_first_error_witness:
  "processTransition (\<lambda>p c. None) (0::nat) oltDevice onuDevice = (None, 0) \<and>
   processTransition (\<lambda>p c. Some [countCalls, notAllowed, countCalls]) 0 oltDevice onuDevice =
     (Some (Plain ''Transition-not-allowed''), 1) \<and>
   fst (processTransition (\<lambda>p c. Some [noOp, activateDevice]) (0::nat) oltDevice onuDevice) = None \<and>
   processTransition (\<lambda>p c. Some [notAllowed]) (0::nat) oltDevice onuDevice =
     (Some (Plain ''Transition-not-allowed''), 0)"
proof -
  have a: "runHandlers [countCalls] (0::nat) onuDevice = (None, 1)"
    by (simp add: countCalls_def)
  have b: "notAllowed (1::nat) onuDevice = (Some (Plain ''Transition-not-allowed''), 1)"
    by (simp add: notAllowed_def)
  have c: "\<forall>h \<in> set [noOp, activateDevice]. \<forall>w'::nat. fst (h w' onuDevice) = None"
    by (simp add: noOp_def activateDevice_def)
  show ?thesis
    using processTransition_first_error [where lookup = "\<lambda>p c. None" and previous = oltDevice
        and current = onuDevice and w = "0::nat"]
      processTransition_first_error [where lookup = "\<lambda>p c. Some [countCalls, notAllowed, countCalls]"
        and previous = oltDevice and current = onuDevice and w = "0::nat" and before = "[countCalls]"
        and handler = notAllowed and rest = "[countCalls]" and ?w1.0 = 1 and ?w2.0 = 1
        and err = "Plain ''Transition-not-allowed''"]
      processTransition_first_error [where lookup = "\<lambda>p c. Some [noOp, activateDevice]"
        and previous = oltDevice and current = onuDevice and w = "0::nat"
        and hs = "[noOp, activateDevice]"]
      processTransition_first_error [where lookup = "\<lambda>p c. Some [notAllowed]"
        and previous = oltDevice and current = onuDevice and w = "0::nat"]
      a b c
    by simp
qed

subsection \<open>Finding a child device\<close>

lemma childFound_matchingRule:
  "ProxyAddress d = Some pa \<Longrightarrow> childFound serial onu port d pa = matchingRule serial onu port d"
  by (simp add: childFound_def matchingRule_def)

lemma childSearch_skip:
  "fetchChildren fuel dMgr before = Some (ds, dMgr') \<Longrightarrow>
   \<forall>d \<in> set ds. ProxyAddress d \<noteq> None \<and> \<not> matchingRule serial onu port d \<Longrightarrow>
   childSearch fuel dMgr serial onu port (before @ rest) =
     childSearch fuel dMgr' serial onu port rest"
proof (induction before arbitrary: dMgr ds)
  case Nil
  then show ?case by simp
next
  case (Cons c cs)
  from Cons.prems(1) obtain r dMgr1 where g: "GetDevice fuel dMgr c = Some (r, dMgr1)"
    by (auto split: option.splits)
  with Cons.prems(1) obtain ds' where
    f: "fetchChildren fuel dMgr1 cs = Some (ds', dMgr')" and
    ds: "ds = (case r of Inl e \<Rightarrow> ds' | Inr d \<Rightarrow> d # ds')"
    by (auto split: option.splits)
  show ?case
  proof (cases r)
    case (Inl e)
    with ds Cons.prems(2)
    have "\<forall>d \<in> set ds'. ProxyAddress d \<noteq> None \<and> \<not> matchingRule serial onu port d"
      by simp
    with Cons.IH f have "childSearch fuel dMgr1 serial onu port (cs @ rest) =
        childSearch fuel dMgr' serial onu port rest" by blast
    with g Inl show ?thesis by simp
  next
    case (Inr d)
    with ds have dsd: "ds = d # ds'" by simp
    with Cons.prems(2) obtain pa where pa: "ProxyAddress d = Some pa" by auto
    from dsd Cons.prems(2) have n: "\<not> matchingRule serial onu port d" by simp
    from dsd Cons.prems(2)
    have "\<forall>d \<in> set ds'. ProxyAddress d \<noteq> None \<and> \<not> matchingRule serial onu port d"
      by simp
    with Cons.IH f have ih: "childSearch fuel dMgr1 serial onu port (cs @ rest) =
        childSearch fuel dMgr' serial onu port rest" by blast
    show ?thesis
      using g Inr pa n ih childFound_matchingRule [OF pa, of serial onu port]
      by simp
  qed
qed

lemma familyManager_agents:
  "deviceAgents familyManager ''olt3'' = Some (newDeviceAgent olt3)"
  "deviceAgents familyManager ''olt4'' = Some (newDeviceAgent olt4)"
  "deviceAgents familyManager ''onu1'' = Some (newDeviceAgent onu1)"
  "deviceAgents familyManager ''onu3'' = Some (newDeviceAgent onu3)"
  "deviceAgents familyManager ''onu4'' = Some (newDeviceAgent onu4)"
  by (simp_all add: familyManager_def)

lemma family_fetch:
  "GetDevice 3 familyManager ''olt3'' = Some (Inr olt3, familyManager)"
  "GetDevice 3 familyManager ''olt4'' = Some (Inr olt4, familyManager)"
  "GetDevice 3 familyManager ''onu1'' = Some (Inr onu1, familyManager)"
  "GetDevice 3 familyManager ''onu3'' = Some (Inr onu3, familyManager)"
  "GetDevice 3 familyManager ''onu4'' = Some (Inr onu4, familyManager)"
  using familyManager_agents GetDevice_resident [of familyManager _ _ 2]
  by (simp_all add: newDeviceAgent_def numeral_3_eq_3)

lemma family_gone:
  "GetDevice 3 familyManager ''gone'' = Some (Inl (Status NotFound ''gone''), familyManager)"
  by (simp add: GetDevice_def numeral_3_eq_3 familyManager_def IsDeviceInCache_def agentStart_def
      newDeviceAgent_def deviceWithId_def)

lemma family_children:
  "getAllChildDeviceIds olt3 = [''gone'', ''onu1''] @ ''onu3'' # [''onu4'', ''onu2'']"
  "getAllChildDeviceIds olt4 = [''onu1'', ''onu3'', ''onu4'']"
  by (simp_all add: getAllChildDeviceIds_def olt3_def olt4_def)

lemma treeManager_agents:
  "deviceAgents treeManager ''olt1'' = Some (newDeviceAgent olt1)"
  "deviceAgents treeManager ''onu1'' = Some (newDeviceAgent onu1)"
  "deviceAgents treeManager ''olt2'' = Some (newDeviceAgent olt2)"
  "deviceAgents treeManager ''onu2'' = Some (newDeviceAgent onu2)"
  by (simp_all add: treeManager_def)

lemma tree_fetch:
  "GetDevice 1 treeManager ''olt1'' = Some (Inr olt1, treeManager)"
  "GetDevice 1 treeManager ''onu1'' = Some (Inr onu1, treeManager)"
  "GetDevice 1 treeManager ''olt2'' = Some (Inr olt2, treeManager)"
  "GetDevice 1 treeManager ''onu2'' = Some (Inr onu2, treeManager)"
  using treeManager_agents GetDevice_resident [of treeManager _ _ 0]
  by (simp_all add: newDeviceAgent_def)

lemma tree_children:
  "getAllChildDeviceIds olt1 = [''onu1'']" "getAllChildDeviceIds olt2 = [''onu2'']"
  by (simp_all add: getAllChildDeviceIds_def olt1_def olt2_def)

text \<open>
  C4 as stated fails. With no serial number and onu id \<open>2\<^sup>3\<^sup>2 + 5\<close>, \<^verbatim>\<open>GetChildDevice\<close>
  returns the child whose proxy address has onu id 5, which is not the onu id asked for:
  the code compares the low 32 bits. And a child with serial number \<open>S2\<close> that has no
  proxy address is not returned when \<open>S2\<close> is asked for: reading its onu id is a nil
  pointer dereference.
\<close>

theorem GetChildDevice_truncates_onu_id:
  "GetChildDevice 1 treeManager ''olt1'' [] 4294967301 1 = Some (Inr onu1, treeManager) \<and>
   map_option paOnuId (ProxyAddress onu1) = Some 5 \<and>
   SerialNumber onu1 = ''S1'' \<and>
   GetChildDevice 1 treeManager ''olt2'' ''S2'' 0 0 =
     Some (Inl (Panic ''nil pointer dereference''), treeManager) \<and>
   SerialNumber onu2 = ''S2''"
  using tree_fetch tree_children
  by (simp add: GetChildDevice_def childFound_def uint32_def onu1_def onu2_def deviceWithId_def)

text \<open>
  C4, amended. For a parent device that \<^verbatim>\<open>GetDevice\<close> returns and arguments (serial_no,
  onu_id, parent_port), \<^verbatim>\<open>GetChildDevice\<close> returns the first enumerated child that
  satisfies the matching rule, and fetches no child after it, provided that this child
  and the children fetched before it have a proxy address; it returns not-found when
  every child that can be fetched has a proxy address and none satisfies the rule. A
  child that cannot be fetched is passed over. In the rule an onu_id match requires the
  child's proxy-address onu id to equal the low 32 bits of onu_id and its parent port to
  equal the low 32 bits of parent_port; a serial match requires the child's serial
  number to equal serial_no; when onu_id > 0 and serial_no is not empty both are
  required, otherwise either suffices.
\<close>

theorem GetChildDevice_first_match:
  "(GetDevice fuel dMgr parentDeviceId = Some (Inr parentDevice, dMgr1) \<and>
    getAllChildDeviceIds parentDevice = before @ c # after \<and>
    fetchChildren fuel dMgr1 before = Some (skipped, dMgr2) \<and>
    (\<forall>d \<in> set skipped. ProxyAddress d \<noteq> None \<and> \<not> matchingRule serial_no onu_id parent_port d) \<and>
    GetDevice fuel dMgr2 c = Some (Inr child, dMgr3) \<and>
    ProxyAddress child \<noteq> None \<and> matchingRule serial_no onu_id parent_port child \<longrightarrow>
      GetChildDevice fuel dMgr parentDeviceId serial_no onu_id parent_port =
        Some (Inr child, dMgr3)) \<and>
   (GetDevice fuel dMgr parentDeviceId = Some (Inr parentDevice, dMgr1) \<and>
    fetchChildren fuel dMgr1 (getAllChildDeviceIds parentDevice) = Some (children, dMgr4) \<and>
    (\<forall>d \<in> set children. ProxyAddress d \<noteq> None \<and> \<not> matchingRule serial_no onu_id parent_port d) \<longrightarrow>
      GetChildDevice fuel dMgr parentDeviceId serial_no onu_id parent_port =
        Some (Inl (Status NotFound parentDeviceId), dMgr4))"
proof (intro conjI impI; elim conjE)
  assume g: "GetDevice fuel dMgr parentDeviceId = Some (Inr parentDevice, dMgr1)"
    and l: "getAllChildDeviceIds parentDevice = before @ c # after"
    and f: "fetchChildren fuel dMgr1 before = Some (skipped, dMgr2)"
    and s: "\<forall>d \<in> set skipped. ProxyAddress d \<noteq> None \<and>
        \<not> matchingRule serial_no onu_id parent_port d"
    and gc: "GetDevice fuel dMgr2 c = Some (Inr child, dMgr3)"
    and p: "ProxyAddress child \<noteq> None"
    and m: "matchingRule serial_no onu_id parent_port child"
  from p obtain pa where pa: "ProxyAddress child = Some pa" by auto
  have "childSearch fuel dMgr1 serial_no onu_id parent_port (before @ c # after) =
      childSearch fuel dMgr2 serial_no onu_id parent_port (c # after)"
    using f s by (rule childSearch_skip)
  also have "\<dots> = Some (Inr (Some child), dMgr3)"
    using gc pa m childFound_matchingRule [OF pa, of serial_no onu_id parent_port] by simp
  finally show "GetChildDevice fuel dMgr parentDeviceId serial_no onu_id parent_port =
      Some (Inr child, dMgr3)"
    using g l by (simp add: GetChildDevice_def)
next
  assume g: "GetDevice fuel dMgr parentDeviceId = Some (Inr parentDevice, dMgr1)"
    and f: "fetchChildren fuel dMgr1 (getAllChildDeviceIds parentDevice) = Some (children, dMgr4)"
    and s: "\<forall>d \<in> set children. ProxyAddress d \<noteq> None \<and>
        \<not> matchingRule serial_no onu_id parent_port d"
  show "GetChildDevice fuel dMgr parentDeviceId serial_no onu_id parent_port =
      Some (Inl (Status NotFound parentDeviceId), dMgr4)"
  proof (cases "getAllChildDeviceIds parentDevice = []")
    case True
    with f have "dMgr4 = dMgr1" by simp
    with True g show ?thesis by (simp add: GetChildDevice_def)
  next
    case False
    have "childSearch fuel dMgr1 serial_no onu_id parent_port
        (getAllChildDeviceIds parentDevice @ []) =
        childSearch fuel dMgr4 serial_no onu_id parent_port []"
      using f s by (rule childSearch_skip)
    then have "childSearch fuel dMgr1 serial_no onu_id parent_port
        (getAllChildDeviceIds parentDevice) = Some (Inr None, dMgr4)"
      by simp
    with False g show ?thesis by (simp add: GetChildDevice_def)
  qed
qed

text \<open>
  The children of \<open>olt3\<close>, asked for serial number \<open>S3\<close>: the first id cannot be
  fetched and is passed over, \<open>onu1\<close> does not match, \<open>onu3\<close> matches and is returned;
  \<open>onu4\<close>, which matches too, and \<open>onu2\<close>, which has no proxy address, come after it and
  are not read. The children of \<open>olt4\<close>, asked for a serial number and an onu id that
  none of the three has: not found.
\<close>

theorem GetChildDevice_first_match_witness:
  "GetDevice 3 familyManager ''olt3'' = Some (Inr olt3, familyManager) \<and>
   getAllChildDeviceIds olt3 = [''gone'', ''onu1''] @ ''onu3'' # [''onu4'', ''onu2''] \<and>
   fetchChildren 3 familyManager [''gone'', ''onu1''] = Some ([onu1], familyManager) \<and>
   ProxyAddress onu1 \<noteq> None \<and> \<not> matchingRule ''S3'' 0 1 onu1 \<and>
   ProxyAddress onu3 \<noteq> None \<and> matchingRule ''S3'' 0 1 onu3 \<and>
   matchingRule ''S3'' 0 1 onu4 \<and>
   deviceAgents familyManager ''onu2'' = Some (newDeviceAgent onu2) \<and> ProxyAddress onu2 = None \<and>
   GetChildDevice 3 familyManager ''olt3'' ''S3'' 0 1 = Some (Inr onu3, familyManager) \<and>
   fetchChildren 3 familyManager (getAllChildDeviceIds olt4) =
     Some ([onu1, onu3, onu4], familyManager) \<and>
   GetChildDevice 3 familyManager ''olt4'' ''S9'' 9 1 =
     Some (Inl (Status NotFound ''olt4''), familyManager)"
proof -
  have f: "fetchChildren 3 familyManager [''gone'', ''onu1''] = Some ([onu1], familyManager)"
    "fetchChildren 3 familyManager (getAllChildDeviceIds olt4) =
       Some ([onu1, onu3, onu4], familyManager)"
    using family_fetch family_gone family_children by simp_all
  have p: "ProxyAddress onu1 \<noteq> None" "ProxyAddress onu3 \<noteq> None" "ProxyAddress onu4 \<noteq> None"
    "ProxyAddress onu2 = None"
    by (simp_all add: onu1_def onu2_def onu3_def onu4_def deviceWithId_def)
  have m: "\<not> matchingRule ''S3'' 0 1 onu1" "matchingRule ''S3'' 0 1 onu3"
    "matchingRule ''S3'' 0 1 onu4"
    "\<not> matchingRule ''S9'' 9 1 onu1" "\<not> matchingRule ''S9'' 9 1 onu3"
    "\<not> matchingRule ''S9'' 9 1 onu4"
    by (simp_all add: matchingRule_def uint32_def onu1_def onu3_def onu4_def deviceWithId_def)
  have a: "deviceAgents familyManager ''onu2'' = Some (newDeviceAgent onu2)"
    by (simp add: familyManager_def)
  have 1: "GetChildDevice 3 familyManager ''olt3'' ''S3'' 0 1 = Some (Inr onu3, familyManager)"
    using GetChildDevice_first_match [where fuel = 3 and dMgr = familyManager
        and parentDeviceId = "''olt3''" and parentDevice = olt3 and ?dMgr1.0 = familyManager
        and before = "[''gone'', ''onu1'']" and c = "''onu3''" and after = "[''onu4'', ''onu2'']"
        and skipped = "[onu1]" and ?dMgr2.0 = familyManager and child = onu3
        and ?dMgr3.0 = familyManager and serial_no = "''S3''" and onu_id = 0 and parent_port = 1]
      family_fetch family_children f p m
    by simp
  have 2: "GetChildDevice 3 familyManager ''olt4'' ''S9'' 9 1 =
      Some (Inl (Status NotFound ''olt4''), familyManager)"
    using GetChildDevice_first_match [where fuel = 3 and dMgr = familyManager
        and parentDeviceId = "''olt4''" and parentDevice = olt4 and ?dMgr1.0 = familyManager
        and children = "[onu1, onu3, onu4]" and ?dMgr4.0 = familyManager
        and serial_no = "''S9''" and onu_id = 9 and parent_port = 1]
      family_fetch f p m
    by simp
  show ?thesis using family_fetch(1) family_children(1) f p m a 1 2 by simp
qed

end
